theory Spec2Isabelle
  imports Complex_Main "HOL-Library.Word" "HOL-Library.Multiset"
begin

section \<open>Numbers and buffers\<close>

text \<open>
  A C++ \<^verbatim>\<open>float\<close> or \<^verbatim>\<open>double\<close> is a finite real, an infinity or
  not-a-number. Finite arithmetic is taken exact: rounding, overflow to infinity and signed
  zeros are not modelled, so a \<^verbatim>\<open>float\<close> widened to \<^verbatim>\<open>double\<close> and narrowed
  back is the same value, as it is on the machine. Comparisons follow IEEE 754: every
  ordered comparison with not-a-number is false.
\<close>

datatype fp = Fin real | PInf | NInf | NaN

fun fgt :: "fp \<Rightarrow> fp \<Rightarrow> bool" where
  "fgt NaN b = False"
| "fgt a NaN = False"
| "fgt (Fin a) (Fin b) = (a > b)"
| "fgt PInf PInf = False"
| "fgt PInf b = True"
| "fgt a NInf = (a \<noteq> NInf)"
| "fgt a PInf = False"
| "fgt NInf b = False"

fun fle :: "fp \<Rightarrow> fp \<Rightarrow> bool" where
  "fle NaN b = False"
| "fle a NaN = False"
| "fle (Fin a) (Fin b) = (a \<le> b)"
| "fle NInf b = True"
| "fle a PInf = True"
| "fle PInf b = False"
| "fle a NInf = False"

fun fmul :: "fp \<Rightarrow> fp \<Rightarrow> fp" where
  "fmul NaN b = NaN"
| "fmul a NaN = NaN"
| "fmul (Fin a) (Fin b) = Fin (a * b)"
| "fmul (Fin a) PInf = (if a > 0 then PInf else if a < 0 then NInf else NaN)"
| "fmul (Fin a) NInf = (if a > 0 then NInf else if a < 0 then PInf else NaN)"
| "fmul PInf (Fin b) = (if b > 0 then PInf else if b < 0 then NInf else NaN)"
| "fmul NInf (Fin b) = (if b > 0 then NInf else if b < 0 then PInf else NaN)"
| "fmul PInf PInf = PInf"
| "fmul PInf NInf = NInf"
| "fmul NInf PInf = NInf"
| "fmul NInf NInf = PInf"

definition is_finite :: "fp \<Rightarrow> bool" where
  "is_finite v = (case v of Fin r \<Rightarrow> True | _ \<Rightarrow> False)"

text \<open>The C library's \<^verbatim>\<open>atan2\<close> on finite arguments.\<close>

definition atan2 :: "real \<Rightarrow> real \<Rightarrow> real" where
  "atan2 y x =
     (if x > 0 then arctan (y / x)
      else if x < 0 then (if y \<ge> 0 then arctan (y / x) + pi else arctan (y / x) - pi)
      else if y > 0 then pi / 2
      else if y < 0 then - (pi / 2)
      else 0)"

text \<open>
  Arithmetic on \<^verbatim>\<open>unsigned int\<close> and \<^verbatim>\<open>uint32_t\<close> wraps modulo \<open>2^32\<close>.
\<close>

definition u32 :: "nat \<Rightarrow> nat" where
  "u32 n = n mod 2 ^ 32"

text \<open>
  What C++ leaves undefined is an error value of the model: a read or write outside a
  buffer, a remainder by zero, and a floating-point value converted to an integer type
  that cannot hold its truncation.
\<close>

datatype error = OutOfBounds | DivisionByZero | FloatToIntRange

definition bind :: "error + 'a \<Rightarrow> ('a \<Rightarrow> error + 'b) \<Rightarrow> error + 'b" where
  "bind m f = (case m of Inl e \<Rightarrow> Inl e | Inr v \<Rightarrow> f v)"

definition read_at :: "'a list \<Rightarrow> nat \<Rightarrow> error + 'a" where
  "read_at xs n = (if n < length xs then Inr (xs ! n) else Inl OutOfBounds)"

definition write_at :: "'a list \<Rightarrow> nat \<Rightarrow> 'a \<Rightarrow> error + 'a list" where
  "write_at xs n v = (if n < length xs then Inr (xs[n := v]) else Inl OutOfBounds)"

text \<open>
  A counting loop \<^verbatim>\<open>for (k = 0; k < n; k++) body\<close> whose body does not assign \<open>k\<close>
  runs the body over \<open>[0..<n]\<close>, and stops at the first error.
\<close>

fun for_loop :: "nat list \<Rightarrow> (nat \<Rightarrow> 's \<Rightarrow> error + 's) \<Rightarrow> 's \<Rightarrow> error + 's" where
  "for_loop [] body s = Inr s"
| "for_loop (k # ks) body s =
     (case body k s of Inl e \<Rightarrow> Inl e | Inr s' \<Rightarrow> for_loop ks body s')"

section \<open>Messages\<close>

record Time =
  sec :: int
  nsec :: int

record Header =
  frame_id :: string
  stamp :: Time

text \<open>
  A point of the cloud: the fields \<^verbatim>\<open>x\<close>, \<^verbatim>\<open>y\<close>, \<^verbatim>\<open>z\<close> and the first three
  bytes of the field \<^verbatim>\<open>rgb\<close>. The byte layout of the message (point step, row step,
  the width and height the modifier maintains) is not modelled.
\<close>

record PointXYZRGB =
  pt_x :: fp
  pt_y :: fp
  pt_z :: fp
  pt_rgb0 :: "8 word"
  pt_rgb1 :: "8 word"
  pt_rgb2 :: "8 word"

record PointCloud2 =
  pc_header :: Header
  pc_points :: "PointXYZRGB list"
  is_dense :: bool

text \<open>
  The depth raster: the destination buffer as the union of the source views it, an array of
  \<^verbatim>\<open>float\<close> or of \<^verbatim>\<open>uint16_t\<close>.
\<close>

datatype depth_data = Data32FC1 "fp list" | Data16UC1 "16 word list"

datatype encoding = TYPE_32FC1 | TYPE_16UC1

record Image =
  im_header :: Header
  im_height :: nat
  im_width :: nat
  im_encoding :: encoding
  is_bigendian :: nat
  im_step :: nat
  im_data :: depth_data

record Quaternion =
  q_x :: fp
  q_y :: fp
  q_z :: fp
  q_w :: fp

datatype marker_type = ARROW

datatype marker_action = ADD

record Marker =
  m_header :: Header
  m_type :: marker_type
  m_action :: marker_action
  m_id :: int
  m_position :: "fp \<times> fp \<times> fp"
  m_orientation :: Quaternion
  m_color :: "real \<times> real \<times> real \<times> real"
  m_scale :: "real \<times> real \<times> real"
  m_lifetime :: Time

record Transform =
  translation :: "real \<times> real \<times> real"
  rotation :: "real \<times> real \<times> real \<times> real"

record TransformStamped =
  ts_frame_id :: string
  ts_child_frame_id :: string
  ts_transform :: Transform

text \<open>
  What a callback does to the outside, in order: a request to the sensor, or a message
  handed to a publisher.
\<close>

datatype event =
    SetActive bool
  | PublishPointCloud PointCloud2
  | PublishDepthImage Image
  | PublishNormals "Marker list"
  | PublishReflectance Image

section \<open>The plugin\<close>

text \<open>
  The object's fields, those of its base classes that the callbacks read
  (\<^verbatim>\<open>initialized_\<close>, \<^verbatim>\<open>width_\<close>, \<^verbatim>\<open>height_\<close>, \<^verbatim>\<open>image_connect_count_\<close>,
  \<^verbatim>\<open>image_msg_.data\<close>, \<^verbatim>\<open>skip_\<close>, \<^verbatim>\<open>width\<close>, \<^verbatim>\<open>height\<close>), and the parent
  sensor's state (whether it is active, its last measurement time, its horizontal field of
  view). The declarations are in a header outside the sources: the counters and
  \<^verbatim>\<open>reduce_normals_\<close> are taken as \<^verbatim>\<open>int\<close>, the dimensions as
  \<^verbatim>\<open>unsigned int\<close>, the cutoff as \<^verbatim>\<open>double\<close>, and \<^verbatim>\<open>pcd_\<close> as a pointer
  that is null until first allocated. \<open>events\<close> records the calls to the sensor and the
  publishers. An Isabelle name cannot end in an underscore, so a member \<^verbatim>\<open>name_\<close> of
  the source is the field \<open>name_'\<close>. The mutex is not modelled: a callback runs as one step.
\<close>

record GazeboRosDepthCamera =
  initialized_' :: bool
  height_' :: nat
  width_' :: nat
  height :: nat
  width :: nat
  frame_name_' :: string
  image_connect_count_' :: int
  image_msg_data :: "8 word list"
  skip_' :: nat
  sensor_update_time_' :: Time
  sensor_active :: bool
  sensor_hfov :: real
  sensor_last_measurement_time :: Time
  point_cloud_connect_count_' :: int
  normals_connect_count_' :: int
  depth_image_connect_count_' :: int
  depth_info_connect_count_' :: int
  reflectance_connect_count_' :: int
  point_cloud_cutoff_' :: fp
  reduce_normals_' :: int
  use_depth_image_16UC1_format_' :: bool
  tf_' :: Transform
  pointCloudFrameName_' :: string
  depth_sensor_update_time_' :: Time
  pcd_' :: "fp list option"
  point_cloud_msg_' :: PointCloud2
  depth_image_msg_' :: Image
  reflectance_msg_' :: Image
  events :: "event list"

definition SetActive_call :: "bool \<Rightarrow> GazeboRosDepthCamera \<Rightarrow> GazeboRosDepthCamera" where
  "SetActive_call b s = s\<lparr>sensor_active := b, events := events s @ [SetActive b]\<rparr>"

subsection \<open>Subscriber counting\<close>

definition PointCloudConnect :: "GazeboRosDepthCamera \<Rightarrow> GazeboRosDepthCamera" where
  "PointCloudConnect s =
     SetActive_call True
       (s\<lparr>point_cloud_connect_count_' := point_cloud_connect_count_' s + 1,
          image_connect_count_' := image_connect_count_' s + 1\<rparr>)"

definition PointCloudDisconnect :: "GazeboRosDepthCamera \<Rightarrow> GazeboRosDepthCamera" where
  "PointCloudDisconnect s =
     (let s1 = s\<lparr>point_cloud_connect_count_' := point_cloud_connect_count_' s - 1,
                  image_connect_count_' := image_connect_count_' s - 1\<rparr>
      in if point_cloud_connect_count_' s1 \<le> 0 then SetActive_call False s1 else s1)"

definition ReflectanceConnect :: "GazeboRosDepthCamera \<Rightarrow> GazeboRosDepthCamera" where
  "ReflectanceConnect s =
     SetActive_call True
       (s\<lparr>reflectance_connect_count_' := reflectance_connect_count_' s + 1,
          image_connect_count_' := image_connect_count_' s + 1\<rparr>)"

definition NormalsConnect :: "GazeboRosDepthCamera \<Rightarrow> GazeboRosDepthCamera" where
  "NormalsConnect s =
     SetActive_call True
       (s\<lparr>normals_connect_count_' := normals_connect_count_' s + 1,
          image_connect_count_' := image_connect_count_' s + 1\<rparr>)"

definition ReflectanceDisconnect :: "GazeboRosDepthCamera \<Rightarrow> GazeboRosDepthCamera" where
  "ReflectanceDisconnect s =
     (let s1 = s\<lparr>reflectance_connect_count_' := reflectance_connect_count_' s - 1,
                  image_connect_count_' := image_connect_count_' s - 1\<rparr>
      in if reflectance_connect_count_' s1 \<le> 0 then SetActive_call False s1 else s1)"

definition NormalsDisconnect :: "GazeboRosDepthCamera \<Rightarrow> GazeboRosDepthCamera" where
  "NormalsDisconnect s =
     (let s1 = s\<lparr>normals_connect_count_' := normals_connect_count_' s - 1,
                  image_connect_count_' := image_connect_count_' s - 1\<rparr>
      in if reflectance_connect_count_' s1 \<le> 0 then SetActive_call False s1 else s1)"

definition DepthImageConnect :: "GazeboRosDepthCamera \<Rightarrow> GazeboRosDepthCamera" where
  "DepthImageConnect s =
     SetActive_call True
       (s\<lparr>depth_image_connect_count_' := depth_image_connect_count_' s + 1\<rparr>)"

definition DepthImageDisconnect :: "GazeboRosDepthCamera \<Rightarrow> GazeboRosDepthCamera" where
  "DepthImageDisconnect s =
     s\<lparr>depth_image_connect_count_' := depth_image_connect_count_' s - 1\<rparr>"

definition DepthInfoConnect :: "GazeboRosDepthCamera \<Rightarrow> GazeboRosDepthCamera" where
  "DepthInfoConnect s = s\<lparr>depth_info_connect_count_' := depth_info_connect_count_' s + 1\<rparr>"

definition DepthInfoDisconnect :: "GazeboRosDepthCamera \<Rightarrow> GazeboRosDepthCamera" where
  "DepthInfoDisconnect s = s\<lparr>depth_info_connect_count_' := depth_info_connect_count_' s - 1\<rparr>"

section \<open>Depth frame to point cloud\<close>

text \<open>
  The state of the conversion loop: the function-scope \<^verbatim>\<open>int index\<close> (the next sample
  to read), the points written so far through the four message iterators, which advance
  together once per pixel, the cached point grid, and the dense flag of the message.
\<close>

record cloud_fill =
  cf_index :: nat
  cf_points :: "PointXYZRGB list"
  cf_pcd :: "fp list"
  cf_dense :: bool

text \<open>
  The colour of the pixel in column \<open>i\<close>, row \<open>j\<close>, from the cached colour image. The
  products are \<^verbatim>\<open>uint32_t\<close>; the buffer's size is a \<^verbatim>\<open>size_t\<close>.
\<close>

definition fuse_color ::
  "8 word list \<Rightarrow> nat \<Rightarrow> nat \<Rightarrow> nat \<Rightarrow> nat \<Rightarrow> error + (8 word \<times> 8 word \<times> 8 word)" where
  "fuse_color image_src rows_arg cols_arg j i =
     (if length image_src = u32 (rows_arg * cols_arg * 3) then
        bind (read_at image_src (u32 (i * 3 + j * cols_arg * 3 + 0))) (\<lambda>c0.
        bind (read_at image_src (u32 (i * 3 + j * cols_arg * 3 + 1))) (\<lambda>c1.
        bind (read_at image_src (u32 (i * 3 + j * cols_arg * 3 + 2))) (\<lambda>c2.
        Inr (c0, c1, c2))))
      else if length image_src = u32 (rows_arg * cols_arg) then
        bind (read_at image_src (u32 (i + j * cols_arg))) (\<lambda>c.
        Inr (c, c, c))
      else Inr (0, 0, 0))"

text \<open>The body of the inner loop of \<^verbatim>\<open>FillPointCloudHelper\<close>, for one pixel.\<close>

definition fill_pixel ::
  "GazeboRosDepthCamera \<Rightarrow> nat \<Rightarrow> nat \<Rightarrow> fp list \<Rightarrow> real \<Rightarrow> real \<Rightarrow> nat \<Rightarrow> nat
     \<Rightarrow> cloud_fill \<Rightarrow> error + cloud_fill" where
  "fill_pixel this rows_arg cols_arg toCopyFrom fl pAngle j i st =
     (let yAngle = (if cols_arg > 1 then atan2 (real i - 0.5 * real (cols_arg - 1)) fl else 0)
      in
      bind (read_at toCopyFrom (cf_index st)) (\<lambda>depth.
      let index = u32 (j * cols_arg + i);
          x0 = fmul depth (Fin (tan yAngle));
          y0 = fmul depth (Fin (tan pAngle));
          (x, y, z, z_slot, dense) =
            (if fgt depth (point_cloud_cutoff_' this)
             then (x0, y0, depth, depth, cf_dense st)
             else (NaN, NaN, NaN, Fin 0, False))
      in
      bind (write_at (cf_pcd st) (u32 (4 * index + 2)) z_slot) (\<lambda>pcd1.
      bind (write_at pcd1 (u32 (4 * index)) x) (\<lambda>pcd2.
      bind (write_at pcd2 (u32 (4 * index + 1)) y) (\<lambda>pcd3.
      bind (write_at pcd3 (u32 (4 * index + 3)) (Fin 0)) (\<lambda>pcd4.
      bind (fuse_color (image_msg_data this) rows_arg cols_arg j i) (\<lambda>(c0, c1, c2).
      Inr \<lparr>cf_index = cf_index st + 1,
           cf_points = cf_points st @
             [\<lparr>pt_x = x, pt_y = y, pt_z = z, pt_rgb0 = c0, pt_rgb1 = c1, pt_rgb2 = c2\<rparr>],
           cf_pcd = pcd4,
           cf_dense = dense\<rparr>)))))))"

text \<open>
  \<^verbatim>\<open>FillPointCloudHelper\<close>: the focal length from the sensor's field of view, the cached
  grid allocated when the pointer is null (fresh storage is taken as zeros; every slot is
  written before the function returns), then the two loops. It returns the object with its
  new cached grid, and the message.
\<close>

definition FillPointCloudHelper ::
  "GazeboRosDepthCamera \<Rightarrow> PointCloud2 \<Rightarrow> nat \<Rightarrow> nat \<Rightarrow> nat \<Rightarrow> fp list
     \<Rightarrow> error + (GazeboRosDepthCamera \<times> PointCloud2)" where
  "FillPointCloudHelper this point_cloud_msg rows_arg cols_arg step_arg data_arg =
     (let hfov = sensor_hfov this;
          fl = real (width this) / (2 * tan (hfov / 2));
          pcd0 = (case pcd_' this of
                    None \<Rightarrow> replicate (u32 (rows_arg * cols_arg * 4)) (Fin 0)
                  | Some p \<Rightarrow> p)
      in
      bind (for_loop [0..<rows_arg]
              (\<lambda>j. let pAngle = (if rows_arg > 1
                                  then atan2 (real j - 0.5 * real (rows_arg - 1)) fl else 0)
                    in for_loop [0..<cols_arg]
                         (fill_pixel this rows_arg cols_arg data_arg fl pAngle j))
              \<lparr>cf_index = 0, cf_points = [], cf_pcd = pcd0, cf_dense = True\<rparr>)
        (\<lambda>st. Inr (this\<lparr>pcd_' := Some (cf_pcd st)\<rparr>,
                    point_cloud_msg\<lparr>pc_points := cf_points st, is_dense := cf_dense st\<rparr>)))"

text \<open>
  \<^verbatim>\<open>FillPointdCloud\<close>. The frame transform \<^verbatim>\<open>tf2::doTransform\<close> is a library
  function and a parameter here.
\<close>

definition FillPointdCloud ::
  "(PointCloud2 \<Rightarrow> TransformStamped \<Rightarrow> PointCloud2) \<Rightarrow> GazeboRosDepthCamera \<Rightarrow> fp list
     \<Rightarrow> error + GazeboRosDepthCamera" where
  "FillPointdCloud doTransform this src =
     (let pointCloud =
            \<lparr>pc_header = \<lparr>frame_id = frame_name_' this, stamp = depth_sensor_update_time_' this\<rparr>,
             pc_points = [], is_dense = False\<rparr>
      in
      bind (FillPointCloudHelper this pointCloud (height this) (width this) (skip_' this) src)
        (\<lambda>(this1, pointCloud1).
           let tf = \<lparr>ts_frame_id = pointCloudFrameName_' this1,
                     ts_child_frame_id = frame_name_' this1,
                     ts_transform = tf_' this1\<rparr>;
               this2 = this1\<lparr>point_cloud_msg_' := doTransform pointCloud1 tf\<rparr>
           in Inr (this2\<lparr>events := events this2 @ [PublishPointCloud (point_cloud_msg_' this2)]\<rparr>)))"

section \<open>Depth frame to depth raster\<close>

text \<open>
  A floating-point value converted to \<^verbatim>\<open>uint16_t\<close> is truncated towards zero; the
  conversion is undefined when the truncated value is not a \<^verbatim>\<open>uint16_t\<close>.
\<close>

definition truncate_real :: "real \<Rightarrow> int" where
  "truncate_real r = (if r \<ge> 0 then \<lfloor>r\<rfloor> else \<lceil>r\<rceil>)"

definition to_uint16 :: "fp \<Rightarrow> error + 16 word" where
  "to_uint16 v =
     (case v of
        Fin r \<Rightarrow>
          (let t = truncate_real r
           in if 0 \<le> t \<and> t < 65536 then Inr (word_of_int t) else Inl FloatToIntRange)
      | _ \<Rightarrow> Inl FloatToIntRange)"

text \<open>
  The state of the loop of \<^verbatim>\<open>FillDepthImageHelper\<close>: the \<^verbatim>\<open>int index\<close> and the
  destination buffer under each of the union's two views; a call writes through one of them.
\<close>

record depth_fill =
  df_index :: nat
  df_float :: "fp list"
  df_uint16 :: "16 word list"

definition fill_depth_pixel ::
  "GazeboRosDepthCamera \<Rightarrow> nat \<Rightarrow> fp list \<Rightarrow> nat \<Rightarrow> nat \<Rightarrow> depth_fill \<Rightarrow> error + depth_fill" where
  "fill_depth_pixel this cols_arg toCopyFrom j i st =
     bind (read_at toCopyFrom (df_index st)) (\<lambda>depth.
     let st1 = st\<lparr>df_index := df_index st + 1\<rparr> in
     if fgt depth (point_cloud_cutoff_' this) then
       (if \<not> use_depth_image_16UC1_format_' this then
          bind (write_at (df_float st1) (u32 (i + j * cols_arg)) depth) (\<lambda>d.
          Inr (st1\<lparr>df_float := d\<rparr>))
        else
          bind (to_uint16 (fmul depth (Fin 1000))) (\<lambda>v.
          bind (write_at (df_uint16 st1) (u32 (i + j * cols_arg)) v) (\<lambda>d.
          Inr (st1\<lparr>df_uint16 := d\<rparr>))))
     else
       (if \<not> use_depth_image_16UC1_format_' this then
          bind (write_at (df_float st1) (u32 (i + j * cols_arg)) NaN) (\<lambda>d.
          Inr (st1\<lparr>df_float := d\<rparr>))
        else
          bind (write_at (df_uint16 st1) (u32 (i + j * cols_arg)) 0) (\<lambda>d.
          Inr (st1\<lparr>df_uint16 := d\<rparr>))))"

text \<open>
  \<^verbatim>\<open>FillDepthImageHelper\<close>. The byte vector is resized to
  \<^verbatim>\<open>rows_arg * cols_arg\<close> elements of the chosen type (the product is a
  \<^verbatim>\<open>uint32_t\<close>) and viewed as an array of that type; its old content is taken as zeros,
  and every element is written before the function returns.
\<close>

definition FillDepthImageHelper ::
  "GazeboRosDepthCamera \<Rightarrow> Image \<Rightarrow> nat \<Rightarrow> nat \<Rightarrow> nat \<Rightarrow> fp list \<Rightarrow> error + Image" where
  "FillDepthImageHelper this image_msg rows_arg cols_arg step_arg data_arg =
     (let image_msg1 = image_msg\<lparr>im_height := rows_arg, im_width := cols_arg, is_bigendian := 0\<rparr>;
          image_msg2 =
            (if \<not> use_depth_image_16UC1_format_' this
             then image_msg1\<lparr>im_encoding := TYPE_32FC1, im_step := u32 (4 * cols_arg)\<rparr>
             else image_msg1\<lparr>im_encoding := TYPE_16UC1, im_step := u32 (2 * cols_arg)\<rparr>)
      in
      bind (for_loop [0..<rows_arg]
              (\<lambda>j. for_loop [0..<cols_arg] (fill_depth_pixel this cols_arg data_arg j))
              \<lparr>df_index = 0,
               df_float = replicate (u32 (rows_arg * cols_arg)) (Fin 0),
               df_uint16 = replicate (u32 (rows_arg * cols_arg)) 0\<rparr>)
        (\<lambda>st. Inr (image_msg2\<lparr>im_data :=
                      (if \<not> use_depth_image_16UC1_format_' this
                       then Data32FC1 (df_float st) else Data16UC1 (df_uint16 st))\<rparr>)))"

definition FillDepthImage :: "GazeboRosDepthCamera \<Rightarrow> fp list \<Rightarrow> error + GazeboRosDepthCamera" where
  "FillDepthImage this src =
     (let msg = (depth_image_msg_' this)
                  \<lparr>im_header := \<lparr>frame_id = frame_name_' this,
                                 stamp = depth_sensor_update_time_' this\<rparr>\<rparr>
      in
      bind (FillDepthImageHelper this msg (height this) (width this) (skip_' this) src)
        (\<lambda>msg1. Inr (this\<lparr>depth_image_msg_' := msg1,
                           events := events this @ [PublishDepthImage msg1]\<rparr>)))"

section \<open>The frame callbacks\<close>

text \<open>
  The callbacks take the frame and its width and height; the channel depth and the format
  string, which no callback reads, are left out. \<^verbatim>\<open>OnNewNormalsFrame\<close> and
  \<^verbatim>\<open>OnNewReflectanceFrame\<close> are compiled for Gazebo 9 from minor version 13 on.
  \<^verbatim>\<open>OnNewRGBPointCloud\<close>, which republishes a point cloud the sensor has already
  computed, is left out.
\<close>

definition OnNewDepthFrame ::
  "(PointCloud2 \<Rightarrow> TransformStamped \<Rightarrow> PointCloud2) \<Rightarrow> fp list \<Rightarrow> nat \<Rightarrow> nat
     \<Rightarrow> GazeboRosDepthCamera \<Rightarrow> error + GazeboRosDepthCamera" where
  "OnNewDepthFrame doTransform frame w h this =
     (if \<not> initialized_' this \<or> height_' this \<le> 0 \<or> width_' this \<le> 0 then Inr this
      else
        let this1 = this\<lparr>depth_sensor_update_time_' := sensor_last_measurement_time this\<rparr> in
        if sensor_active this1 then
          (if point_cloud_connect_count_' this1 \<le> 0 \<and>
              depth_image_connect_count_' this1 \<le> 0 \<and>
              image_connect_count_' this1 \<le> 0 \<and>
              normals_connect_count_' this1 \<le> 0
           then Inr (SetActive_call False this1)
           else
             bind (if point_cloud_connect_count_' this1 > 0 \<or> normals_connect_count_' this1 > 0
                   then FillPointdCloud doTransform this1 frame else Inr this1) (\<lambda>this2.
             if depth_image_connect_count_' this2 > 0
             then FillDepthImage this2 frame else Inr this2))
        else
          (if point_cloud_connect_count_' this1 > 0 \<or> depth_image_connect_count_' this1 \<le> 0
           then Inr (SetActive_call True this1)
           else Inr this1))"

text \<open>
  \<^verbatim>\<open>OnNewImageFrame\<close>. \<^verbatim>\<open>PutCameraData\<close> belongs to the base class, outside the
  sources, and is a parameter.
\<close>

definition OnNewImageFrame ::
  "(8 word list \<Rightarrow> GazeboRosDepthCamera \<Rightarrow> GazeboRosDepthCamera) \<Rightarrow> 8 word list \<Rightarrow> nat \<Rightarrow> nat
     \<Rightarrow> GazeboRosDepthCamera \<Rightarrow> error + GazeboRosDepthCamera" where
  "OnNewImageFrame PutCameraData frame w h this =
     (if \<not> initialized_' this \<or> height_' this \<le> 0 \<or> width_' this \<le> 0 then Inr this
      else
        let this1 = this\<lparr>sensor_update_time_' := sensor_last_measurement_time this\<rparr> in
        if \<not> sensor_active this1 then
          (if image_connect_count_' this1 > 0 then Inr (SetActive_call True this1) else Inr this1)
        else
          (if image_connect_count_' this1 > 0 then Inr (PutCameraData frame this1) else Inr this1))"

text \<open>
  \<^verbatim>\<open>OnNewReflectanceFrame\<close>. The library's \<^verbatim>\<open>fillImage\<close> copies
  \<^verbatim>\<open>_height\<close> rows of \<^verbatim>\<open>4 * _width\<close> bytes from the frame, four bytes to a
  sample.
\<close>

definition OnNewReflectanceFrame ::
  "fp list \<Rightarrow> nat \<Rightarrow> nat \<Rightarrow> GazeboRosDepthCamera \<Rightarrow> error + GazeboRosDepthCamera" where
  "OnNewReflectanceFrame frame w h this =
     (if \<not> initialized_' this \<or> height_' this \<le> 0 \<or> width_' this \<le> 0 then Inr this
      else if reflectance_connect_count_' this > 0 then
        (let n = u32 (u32 (4 * w) * h) div 4 in
         if length frame < n then Inl OutOfBounds
         else
           let msg = (reflectance_msg_' this)
                       \<lparr>im_header := \<lparr>frame_id = frame_name_' this,
                                      stamp = sensor_update_time_' this\<rparr>,
                        im_height := h, im_width := w, im_encoding := TYPE_32FC1,
                        is_bigendian := 0, im_step := u32 (4 * w),
                        im_data := Data32FC1 (take n frame)\<rparr>
           in Inr (this\<lparr>reflectance_msg_' := msg,
                        events := events this @ [PublishReflectance msg]\<rparr>))
      else Inr this)"

section \<open>Normal frame to markers\<close>

text \<open>
  The vector and quaternion operations of the transform library (\<^verbatim>\<open>tf::Vector3\<close>,
  \<^verbatim>\<open>tf::Quaternion\<close>, over \<^verbatim>\<open>double\<close>) on finite values. An operation whose
  result is not a number on the machine (the arc cosine outside \<open>[-1, 1]\<close>, a division of
  zero by zero, zero times an infinity) returns \<open>None\<close>.
\<close>

type_synonym Vector3 = "real \<times> real \<times> real"

type_synonym quat = "real \<times> real \<times> real \<times> real"

definition isZero :: "Vector3 \<Rightarrow> bool" where
  "isZero v = (case v of (v0, v1, v2) \<Rightarrow> v0 = 0 \<and> v1 = 0 \<and> v2 = 0)"

definition cross :: "Vector3 \<Rightarrow> Vector3 \<Rightarrow> Vector3" where
  "cross a v =
     (case a of (a0, a1, a2) \<Rightarrow> case v of (v0, v1, v2) \<Rightarrow>
        (a1 * v2 - a2 * v1, a2 * v0 - a0 * v2, a0 * v1 - a1 * v0))"

definition dot :: "Vector3 \<Rightarrow> Vector3 \<Rightarrow> real" where
  "dot a v = (case a of (a0, a1, a2) \<Rightarrow> case v of (v0, v1, v2) \<Rightarrow> a0 * v0 + a1 * v1 + a2 * v2)"

definition length3 :: "Vector3 \<Rightarrow> real" where
  "length3 v = sqrt (dot v v)"

definition acos :: "real \<Rightarrow> real option" where
  "acos v = (if - 1 \<le> v \<and> v \<le> 1 then Some (arccos v) else None)"

text \<open>
  \<^verbatim>\<open>setRotation\<close> scales the axis by \<open>sin (angle / 2) / d\<close>, \<open>d\<close> the length of the
  axis. With a zero axis the three vector components are zero times an infinity or a
  not-a-number.
\<close>

definition setRotation :: "Vector3 \<Rightarrow> real \<Rightarrow> quat option" where
  "setRotation axis angle =
     (let d = length3 axis in
      if d = 0 then None
      else
        let s = sin (angle * 0.5) / d in
        case axis of (a0, a1, a2) \<Rightarrow> Some (a0 * s, a1 * s, a2 * s, cos (angle * 0.5)))"

text \<open>
  \<^verbatim>\<open>normalize\<close> divides by the length; it is \<open>normalize_q\<close> here, the name
  \<open>normalize\<close> being taken.
\<close>

definition quat_length :: "quat \<Rightarrow> real" where
  "quat_length q = (case q of (q0, q1, q2, q3) \<Rightarrow> sqrt (q0 * q0 + q1 * q1 + q2 * q2 + q3 * q3))"

definition normalize_q :: "quat \<Rightarrow> quat option" where
  "normalize_q q =
     (let l = quat_length q in
      if l = 0 then None
      else case q of (q0, q1, q2, q3) \<Rightarrow>
        Some (q0 * (1 / l), q1 * (1 / l), q2 * (1 / l), q3 * (1 / l)))"

definition quat_msg :: "quat option \<Rightarrow> Quaternion" where
  "quat_msg q =
     (case q of
        None \<Rightarrow> \<lparr>q_x = NaN, q_y = NaN, q_z = NaN, q_w = NaN\<rparr>
      | Some (q0, q1, q2, q3) \<Rightarrow> \<lparr>q_x = Fin q0, q_y = Fin q1, q_z = Fin q2, q_w = Fin q3\<rparr>)"

definition getIdentity :: quat where
  "getIdentity = (0, 0, 0, 1)"

text \<open>
  The orientation of the marker of a pixel whose normal is \<open>(x, y, z)\<close>. The call
  \<^verbatim>\<open>right_vector.normalized()\<close> returns a copy that the code drops, so the axis
  goes to \<^verbatim>\<open>setRotation\<close> as the cross product left it. A component that is not
  finite makes a product with zero in the cross product not a number, and with it the
  length of the axis and every component of the normalised quaternion.
\<close>

definition marker_orientation :: "fp \<Rightarrow> fp \<Rightarrow> fp \<Rightarrow> Quaternion" where
  "marker_orientation x y z =
     (case (x, y, z) of
        (Fin a, Fin b, Fin c) \<Rightarrow>
          (let axis_vector = (a, b, c) in
           if \<not> isZero axis_vector then
             (let vector = (1, 0, 0);
                  right_vector = cross axis_vector vector
              in quat_msg
                   (case acos (dot axis_vector vector) of
                      None \<Rightarrow> None
                    | Some ac \<Rightarrow>
                        (case setRotation right_vector (- 1 * ac) of
                           None \<Rightarrow> None
                         | Some q \<Rightarrow> normalize_q q)))
           else quat_msg (Some getIdentity))
      | _ \<Rightarrow> quat_msg None)"

text \<open>An \<^verbatim>\<open>unsigned int\<close> stored in the marker's 32-bit signed identifier.\<close>

definition s32 :: "nat \<Rightarrow> int" where
  "s32 n = (if n < 2 ^ 31 then int n else int n - 2 ^ 32)"

text \<open>
  The body of the inner loop of \<^verbatim>\<open>OnNewNormalsFrame\<close>, for the pixel in column \<open>i\<close>,
  row \<open>j\<close>. In \<^verbatim>\<open>index % reduce_normals_\<close> the stride is converted to
  \<^verbatim>\<open>unsigned int\<close>.
\<close>

definition normals_pixel ::
  "GazeboRosDepthCamera \<Rightarrow> fp list \<Rightarrow> fp list \<Rightarrow> nat \<Rightarrow> nat \<Rightarrow> nat \<Rightarrow> Marker list
     \<Rightarrow> error + Marker list" where
  "normals_pixel this normals pcd w i j m_array =
     (let index = u32 (j * w + i);
          stride = nat (reduce_normals_' this mod 2 ^ 32)
      in
      if stride = 0 then Inl DivisionByZero
      else if index mod stride = 0 then
        bind (read_at normals (u32 (4 * index))) (\<lambda>x.
        bind (read_at normals (u32 (4 * index + 1))) (\<lambda>y.
        bind (read_at normals (u32 (4 * index + 2))) (\<lambda>z.
        bind (read_at pcd (u32 (4 * index))) (\<lambda>px.
        bind (read_at pcd (u32 (4 * index + 1))) (\<lambda>py.
        bind (read_at pcd (u32 (4 * index + 2))) (\<lambda>pz.
        Inr (m_array @
          [\<lparr>m_header = \<lparr>frame_id = frame_name_' this, stamp = depth_sensor_update_time_' this\<rparr>,
            m_type = ARROW,
            m_action = ADD,
            m_id = s32 index,
            m_position = (px, py, pz),
            m_orientation = marker_orientation x y z,
            m_color = (1, 0, 0, 1),
            m_scale = (1, 0.01, 0.01),
            m_lifetime = \<lparr>sec = 1, nsec = 0\<rparr>\<rparr>])))))))
      else Inr m_array)"

definition OnNewNormalsFrame ::
  "fp list \<Rightarrow> nat \<Rightarrow> nat \<Rightarrow> GazeboRosDepthCamera \<Rightarrow> error + GazeboRosDepthCamera" where
  "OnNewNormalsFrame normals w h this =
     (if \<not> initialized_' this \<or> height_' this \<le> 0 \<or> width_' this \<le> 0 then Inr this
      else if \<not> sensor_active this then
        (if normals_connect_count_' this > 0 then Inr (SetActive_call True this) else Inr this)
      else if normals_connect_count_' this > 0 then
        bind (case pcd_' this of
                None \<Rightarrow> Inr []
              | Some pcd \<Rightarrow>
                  for_loop [0..<w] (\<lambda>i. for_loop [0..<h] (normals_pixel this normals pcd w i)) [])
          (\<lambda>m_array. Inr (this\<lparr>events := events this @ [PublishNormals m_array]\<rparr>))
      else Inr this)"

section \<open>A loaded plugin\<close>

text \<open>
  The object as the constructor and \<^verbatim>\<open>Load\<close> leave it when the SDF element sets none of
  the options, for a sensor of the given size and field of view, once the base class has
  finished its initialisation: all counters zero, cutoff \<open>0.4\<close>, stride \<open>50\<close>, the
  32-bit float raster, a default-constructed transform, no cached grid yet.
\<close>

definition empty_header :: Header where
  "empty_header = \<lparr>frame_id = [], stamp = \<lparr>sec = 0, nsec = 0\<rparr>\<rparr>"

definition empty_cloud :: PointCloud2 where
  "empty_cloud = \<lparr>pc_header = empty_header, pc_points = [], is_dense = False\<rparr>"

definition empty_image :: Image where
  "empty_image =
     \<lparr>im_header = empty_header, im_height = 0, im_width = 0, im_encoding = TYPE_32FC1,
      is_bigendian = 0, im_step = 0, im_data = Data32FC1 []\<rparr>"

definition loaded_plugin :: "nat \<Rightarrow> nat \<Rightarrow> real \<Rightarrow> GazeboRosDepthCamera" where
  "loaded_plugin w h hfov =
     \<lparr>initialized_' = True,
      height_' = h,
      width_' = w,
      height = h,
      width = w,
      frame_name_' = ''camera'',
      image_connect_count_' = 0,
      image_msg_data = [],
      skip_' = 1,
      sensor_update_time_' = \<lparr>sec = 0, nsec = 0\<rparr>,
      sensor_active = False,
      sensor_hfov = hfov,
      sensor_last_measurement_time = \<lparr>sec = 0, nsec = 0\<rparr>,
      point_cloud_connect_count_' = 0,
      normals_connect_count_' = 0,
      depth_image_connect_count_' = 0,
      depth_info_connect_count_' = 0,
      reflectance_connect_count_' = 0,
      point_cloud_cutoff_' = Fin 0.4,
      reduce_normals_' = 50,
      use_depth_image_16UC1_format_' = False,
      tf_' = \<lparr>translation = (0, 0, 0), rotation = (0, 0, 0, 0)\<rparr>,
      pointCloudFrameName_' = ''camera'',
      depth_sensor_update_time_' = \<lparr>sec = 0, nsec = 0\<rparr>,
      pcd_' = None,
      point_cloud_msg_' = empty_cloud,
      depth_image_msg_' = empty_image,
      reflectance_msg_' = empty_image,
      events = []\<rparr>"

section \<open>Expected values and loop invariants\<close>

text \<open>
  The tangent of the angle of column (or row) \<open>k\<close> of \<open>n\<close>, as the conversion loop
  computes it from the focal length.
\<close>

definition axis_tan :: "nat \<Rightarrow> real \<Rightarrow> nat \<Rightarrow> real" where
  "axis_tan n fl k = tan (if n > 1 then atan2 (real k - 0.5 * real (n - 1)) fl else 0)"

text \<open>
  The colour the conversion gives the pixel in column \<open>i\<close>, row \<open>j\<close>, when no
  index wraps.
\<close>

definition pixel_color :: "8 word list \<Rightarrow> nat \<Rightarrow> nat \<Rightarrow> nat \<Rightarrow> nat \<Rightarrow> 8 word \<times> 8 word \<times> 8 word" where
  "pixel_color image_src rows_arg cols_arg j i =
     (if length image_src = rows_arg * cols_arg * 3 then
        (image_src ! (i * 3 + j * cols_arg * 3),
         image_src ! (i * 3 + j * cols_arg * 3 + 1),
         image_src ! (i * 3 + j * cols_arg * 3 + 2))
      else if length image_src = rows_arg * cols_arg then
        (image_src ! (i + j * cols_arg), image_src ! (i + j * cols_arg), image_src ! (i + j * cols_arg))
      else (0, 0, 0))"

text \<open>
  The point the conversion writes for the sample of flat index \<open>k\<close>, and the invariant
  of its loops after \<open>n\<close> pixels: the points written so far and the four cached slots
  of each are the expected ones, and the dense flag says that every sample so far was above
  the cutoff.
\<close>

definition cloud_point ::
  "GazeboRosDepthCamera \<Rightarrow> nat \<Rightarrow> nat \<Rightarrow> fp list \<Rightarrow> real \<Rightarrow> nat \<Rightarrow> PointXYZRGB" where
  "cloud_point this rows_arg cols_arg data fl k =
     (let d = data ! k;
          valid = fgt d (point_cloud_cutoff_' this);
          c = pixel_color (image_msg_data this) rows_arg cols_arg (k div cols_arg) (k mod cols_arg)
      in \<lparr>pt_x = (if valid then fmul d (Fin (axis_tan cols_arg fl (k mod cols_arg))) else NaN),
          pt_y = (if valid then fmul d (Fin (axis_tan rows_arg fl (k div cols_arg))) else NaN),
          pt_z = (if valid then d else NaN),
          pt_rgb0 = fst c, pt_rgb1 = fst (snd c), pt_rgb2 = snd (snd c)\<rparr>)"

definition cloud_inv ::
  "GazeboRosDepthCamera \<Rightarrow> nat \<Rightarrow> nat \<Rightarrow> fp list \<Rightarrow> real \<Rightarrow> nat \<Rightarrow> nat \<Rightarrow> cloud_fill \<Rightarrow> bool" where
  "cloud_inv this rows_arg cols_arg data fl L n st =
     (cf_index st = n \<and> length (cf_points st) = n \<and> length (cf_pcd st) = L \<and>
      (\<forall>k<n. cf_points st ! k = cloud_point this rows_arg cols_arg data fl k) \<and>
      (\<forall>k<n. cf_pcd st ! (4 * k) = pt_x (cloud_point this rows_arg cols_arg data fl k)) \<and>
      (\<forall>k<n. cf_pcd st ! (4 * k + 1) = pt_y (cloud_point this rows_arg cols_arg data fl k)) \<and>
      (\<forall>k<n. cf_pcd st ! (4 * k + 2) =
                (if fgt (data ! k) (point_cloud_cutoff_' this) then data ! k else Fin 0)) \<and>
      (\<forall>k<n. cf_pcd st ! (4 * k + 3) = Fin 0) \<and>
      cf_dense st = (\<forall>k<n. fgt (data ! k) (point_cloud_cutoff_' this)))"




text \<open>
  The unit quaternion of the rotation by \<open>angle\<close> about \<open>axis\<close>: the axis scaled to
  unit length times the sine of half the angle, and the cosine of half the angle.
\<close>

definition axis_angle_quat :: "Vector3 \<Rightarrow> real \<Rightarrow> quat" where
  "axis_angle_quat axis angle =
     (case axis of (a0, a1, a2) \<Rightarrow>
        (a0 / length3 axis * sin (angle / 2),
         a1 / length3 axis * sin (angle / 2),
         a2 / length3 axis * sin (angle / 2),
         cos (angle / 2)))"

text \<open>
  The orientation as the specification words it: the identity for the zero normal, else
  the unit quaternion of axis \<open>reference \<times> normal\<close> and angle
  \<open>- acos (normal \<cdot> reference)\<close>, the reference axis being \<open>(1, 0, 0)\<close>.
\<close>

definition spec_orientation :: "Vector3 \<Rightarrow> quat" where
  "spec_orientation normal =
     (let reference = (1, 0, 0) in
      if isZero normal then getIdentity
      else axis_angle_quat (cross reference normal) (- arccos (dot normal reference)))"

text \<open>
  The marker of the pixel of flat index \<open>k\<close>, and the markers a stride keeps of an
  index: the one of \<open>k\<close> when the stride divides \<open>k\<close>, none otherwise.
\<close>

definition marker_at :: "GazeboRosDepthCamera \<Rightarrow> fp list \<Rightarrow> fp list \<Rightarrow> nat \<Rightarrow> Marker" where
  "marker_at this normals pcd k =
     \<lparr>m_header = \<lparr>frame_id = frame_name_' this, stamp = depth_sensor_update_time_' this\<rparr>,
      m_type = ARROW,
      m_action = ADD,
      m_id = int k,
      m_position = (pcd ! (4 * k), pcd ! (4 * k + 1), pcd ! (4 * k + 2)),
      m_orientation =
        marker_orientation (normals ! (4 * k)) (normals ! (4 * k + 1)) (normals ! (4 * k + 2)),
      m_color = (1, 0, 0, 1),
      m_scale = (1, 0.01, 0.01),
      m_lifetime = \<lparr>sec = 1, nsec = 0\<rparr>\<rparr>"

definition sampled :: "nat \<Rightarrow> (nat \<Rightarrow> 'a) \<Rightarrow> nat \<Rightarrow> 'a list" where
  "sampled stride f k = (if k mod stride = 0 then [f k] else [])"

text \<open>
  A plugin with one normals subscriber, an active sensor, stride \<open>2\<close> and a cached
  grid for two rows and two columns.
\<close>

definition example_normals_plugin :: GazeboRosDepthCamera where
  "example_normals_plugin =
     (loaded_plugin 2 2 (pi / 2))
       \<lparr>sensor_active := True, normals_connect_count_' := 1, reduce_normals_' := 2,
        pcd_' := Some (replicate 16 (Fin 1))\<rparr>"

text \<open>
  A normal frame for two rows and two columns: the normal \<open>(0, 1, 0)\<close> at the first
  pixel, the zero normal at the others.
\<close>

definition example_normals :: "fp list" where
  "example_normals = [Fin 0, Fin 1, Fin 0, Fin 0] @ replicate 12 (Fin 0)"

section \<open>Loops and indices\<close>

lemma u32_id: "n < 2 ^ 32 \<Longrightarrow> u32 n = n"
  by (simp add: u32_def)

lemma flat_index_less: "j < rows \<Longrightarrow> i < cols \<Longrightarrow> j * cols + i < rows * (cols::nat)"
proof -
  assume j: "j < rows" and i: "i < cols"
  have "j * cols + i < j * cols + cols" using i by simp
  also have "\<dots> = Suc j * cols" by simp
  also have "\<dots> \<le> rows * cols" using j by (intro mult_le_mono1) simp
  finally show ?thesis .
qed

lemma for_loop_append:
  "for_loop (ks @ ls) body s =
     (case for_loop ks body s of Inl e \<Rightarrow> Inl e | Inr s' \<Rightarrow> for_loop ls body s')"
  by (induction ks arbitrary: s) (auto split: sum.splits)

lemma for_loop_invariant:
  assumes "I 0 s"
    and "\<And>k t. k < n \<Longrightarrow> I k t \<Longrightarrow> \<exists>t'. body k t = Inr t' \<and> I (Suc k) t'"
  shows "\<exists>t. for_loop [0..<n] body s = Inr t \<and> I n t"
  using assms(2)
proof (induction n)
  case 0
  then show ?case using assms(1) by simp
next
  case (Suc n)
  then obtain t where t: "for_loop [0..<n] body s = Inr t" "I n t"
    by (metis less_Suc_eq)
  from Suc.prems[of n t] t obtain t' where "body n t = Inr t'" "I (Suc n) t'"
    by auto
  with t show ?case
    by (simp add: for_loop_append)
qed

lemma replicate4: "replicate 4 x = [x, x, x, x]"
  by (simp add: numeral_eq_Suc)

lemma replicate16: "replicate 16 x = [x, x, x, x, x, x, x, x, x, x, x, x, x, x, x, x]"
  by (simp add: numeral_eq_Suc)

lemma replicate12: "replicate 12 x = [x, x, x, x, x, x, x, x, x, x, x, x]"
  by (simp add: numeral_eq_Suc)

lemma upt4: "[0..<4] = [0, 1, 2, 3]"
  by (simp add: upt_rec)

lemma upt2: "[0..<2] = [0, 1]"
  by (simp add: upt_rec)

lemma fle_not_fgt: "fle a b \<Longrightarrow> \<not> fgt a b"
  by (cases a; cases b) auto

lemma loaded_plugin_cutoff: "point_cloud_cutoff_' (loaded_plugin w h f) = Fin (4 / 10)"
  by (simp add: loaded_plugin_def)

section \<open>The subscriber counters\<close>

text \<open>
  What each disconnect handler asks of the sensor. \<^verbatim>\<open>PointCloudDisconnect\<close> and
  \<^verbatim>\<open>ReflectanceDisconnect\<close> test the counter they decrement;
  \<^verbatim>\<open>NormalsDisconnect\<close> decrements the normals counter and tests the reflectance
  counter.
\<close>

lemma PointCloudDisconnect_events:
  "events (PointCloudDisconnect s) =
     events s @ (if point_cloud_connect_count_' s - 1 \<le> 0 then [SetActive False] else [])"
  by (simp add: PointCloudDisconnect_def SetActive_call_def Let_def)

lemma ReflectanceDisconnect_events:
  "events (ReflectanceDisconnect s) =
     events s @ (if reflectance_connect_count_' s - 1 \<le> 0 then [SetActive False] else [])"
  by (simp add: ReflectanceDisconnect_def SetActive_call_def Let_def)

lemma NormalsDisconnect_events:
  "events (NormalsDisconnect s) =
     events s @ (if reflectance_connect_count_' s \<le> 0 then [SetActive False] else [])"
  by (simp add: NormalsDisconnect_def SetActive_call_def Let_def)

text \<open>
  Claim C4 (each disconnect handler undoes its connect handler's increments and asks for
  deactivation when its own counter has fallen to zero or below; the depth image and depth
  info handlers never do): \<^verbatim>\<open>NormalsDisconnect\<close> departs from it. With two normals
  subscribers and no reflectance subscriber, the first disconnect leaves the normals counter
  at \<open>1\<close> and deactivates the sensor.
\<close>

theorem NormalsDisconnect_two_subscribers:
  "normals_connect_count_' (NormalsDisconnect (NormalsConnect (NormalsConnect (loaded_plugin 2 2 (pi / 2))))) = 1 \<and>
   \<not> sensor_active (NormalsDisconnect (NormalsConnect (NormalsConnect (loaded_plugin 2 2 (pi / 2))))) \<and>
   events (NormalsDisconnect (NormalsConnect (NormalsConnect (loaded_plugin 2 2 (pi / 2))))) =
     [SetActive True, SetActive True, SetActive False]"
  by (simp add: NormalsDisconnect_def NormalsConnect_def SetActive_call_def loaded_plugin_def Let_def)

section \<open>The point cloud\<close>

text \<open>
  When no index wraps, the colour lookup reads inside the buffer and returns the expected
  colour.
\<close>

lemma fuse_color_pixel:
  assumes "j < rows" and "i < cols" and "rows * cols * 4 < 2 ^ 32"
  shows "fuse_color img rows cols j i = Inr (pixel_color img rows cols j i)"
proof -
  define m where "m = rows * cols"
  have m: "m * 4 < 4294967296" using assms(3) by (simp add: m_def)
  have k: "j * cols + i < m" using assms by (simp add: flat_index_less m_def)
  have r3: "u32 (m * 3) = m * 3" and r1: "u32 m = m"
    using m by (simp_all add: u32_def)
  have o: "u32 (i * 3 + j * cols * 3 + c) = i * 3 + j * cols * 3 + c" if "c \<le> 2" for c
    using that k m by (simp add: u32_def)
  have o1: "u32 (i + j * cols) = i + j * cols"
    using k m by (simp add: u32_def)
  have b: "i * 3 + j * cols * 3 + c < m * 3" if "c \<le> 2" for c
    using that k by simp
  have b1: "i + j * cols < m" using k by (simp add: add.commute)
  show ?thesis
    unfolding fuse_color_def pixel_color_def m_def[symmetric]
    using o[of 0] o[of 1] o[of 2] o1 b[of 0] b[of 1] b[of 2] b1
    by (simp add: r3 r1 bind_def read_at_def)
qed

text \<open>
  One pixel: the body of the inner loop returns, appends the expected point and writes the
  four cached slots of the pixel.
\<close>

lemma fill_pixel_result:
  assumes j: "j < rows" and i: "i < cols" and nowrap: "rows * cols * 4 < 2 ^ 32"
    and data: "rows * cols \<le> length data" and L: "rows * cols * 4 \<le> length (cf_pcd st)"
    and idx: "cf_index st = j * cols + i"
    and pa: "tan pAngle = axis_tan rows fl j"
  shows "fill_pixel this rows cols data fl pAngle j i st =
           Inr \<lparr>cf_index = Suc (j * cols + i),
                cf_points = cf_points st @ [cloud_point this rows cols data fl (j * cols + i)],
                cf_pcd = (cf_pcd st)
                  [4 * (j * cols + i) + 2 :=
                     (if fgt (data ! (j * cols + i)) (point_cloud_cutoff_' this)
                      then data ! (j * cols + i) else Fin 0),
                   4 * (j * cols + i) := pt_x (cloud_point this rows cols data fl (j * cols + i)),
                   4 * (j * cols + i) + 1 := pt_y (cloud_point this rows cols data fl (j * cols + i)),
                   4 * (j * cols + i) + 3 := Fin 0],
                cf_dense = (cf_dense st \<and> fgt (data ! (j * cols + i)) (point_cloud_cutoff_' this))\<rparr>"
proof -
  define n where "n = j * cols + i"
  define m where "m = rows * cols"
  have m: "m * 4 < 4294967296" using nowrap by (simp add: m_def)
  have n: "n < m" using j i by (simp add: flat_index_less m_def n_def)
  have u: "u32 n = n" "u32 (4 * n) = 4 * n" "u32 (4 * n + 1) = 4 * n + 1"
    "u32 (4 * n + 2) = 4 * n + 2" "u32 (4 * n + 3) = 4 * n + 3"
    using n m by (simp_all add: u32_def)
  have rd: "read_at data n = Inr (data ! n)"
    using n data by (simp add: read_at_def m_def)
  have len: "4 * n + 3 < length (cf_pcd st)"
    using n L by (simp add: m_def)
  have col: "fuse_color (image_msg_data this) rows cols j i =
               Inr (pixel_color (image_msg_data this) rows cols j i)"
    using j i nowrap by (rule fuse_color_pixel)
  have dm: "n div cols = j" "n mod cols = i" using i by (simp_all add: n_def)
  have yt: "tan (if 1 < cols then atan2 (real i - 0.5 * real (cols - 1)) fl else 0) = axis_tan cols fl i"
    by (simp add: axis_tan_def)
  have wr: "write_at xs (4 * n + c) v = Inr (xs[4 * n + c := v])"
    if "length xs = length (cf_pcd st)" and "c \<le> 3" for xs c v
    using that len by (simp add: write_at_def)
  have wr0: "write_at xs (4 * n) v = Inr (xs[4 * n := v])"
    if "length xs = length (cf_pcd st)" for xs v
    using that len by (simp add: write_at_def)
  show ?thesis
    unfolding fill_pixel_def Let_def idx n_def[symmetric] u rd col yt pa bind_def
      cloud_point_def dm
    using len by (simp add: write_at_def split: prod.splits)
qed

lemma cloud_inv_step:
  assumes "cloud_inv this rows cols data fl L n st" and "4 * n + 3 < L"
  shows "cloud_inv this rows cols data fl L (Suc n)
           \<lparr>cf_index = Suc n,
            cf_points = cf_points st @ [cloud_point this rows cols data fl n],
            cf_pcd = (cf_pcd st)
              [4 * n + 2 :=
                 (if fgt (data ! n) (point_cloud_cutoff_' this) then data ! n else Fin 0),
               4 * n := pt_x (cloud_point this rows cols data fl n),
               4 * n + 1 := pt_y (cloud_point this rows cols data fl n),
               4 * n + 3 := Fin 0],
            cf_dense = (cf_dense st \<and> fgt (data ! n) (point_cloud_cutoff_' this))\<rparr>"
  using assms unfolding cloud_inv_def
  by (auto simp add: All_less_Suc nth_append nth_list_update)

lemma fill_pixel_step:
  assumes j: "j < rows" and i: "i < cols" and nowrap: "rows * cols * 4 < 2 ^ 32"
    and data: "rows * cols \<le> length data" and L: "rows * cols * 4 \<le> L"
    and inv: "cloud_inv this rows cols data fl L (j * cols + i) st"
    and pa: "tan pAngle = axis_tan rows fl j"
  shows "\<exists>st'. fill_pixel this rows cols data fl pAngle j i st = Inr st' \<and>
               cloud_inv this rows cols data fl L (Suc (j * cols + i)) st'"
proof -
  have len: "length (cf_pcd st) = L" and idx: "cf_index st = j * cols + i"
    using inv by (simp_all add: cloud_inv_def)
  have n: "j * cols + i < rows * cols" using j i by (rule flat_index_less)
  have b: "4 * (j * cols + i) + 3 < L" using n L by simp
  show ?thesis
    using fill_pixel_result[OF j i nowrap data _ idx pa, of this] cloud_inv_step[OF inv b] L len
    by simp
qed

lemma fill_row:
  assumes j: "j < rows" and nowrap: "rows * cols * 4 < 2 ^ 32"
    and data: "rows * cols \<le> length data" and L: "rows * cols * 4 \<le> L"
    and inv: "cloud_inv this rows cols data fl L (j * cols) st"
    and pa: "tan pAngle = axis_tan rows fl j"
  shows "\<exists>st'. for_loop [0..<cols] (fill_pixel this rows cols data fl pAngle j) st = Inr st' \<and>
               cloud_inv this rows cols data fl L (Suc j * cols) st'"
proof -
  have "\<exists>st'. for_loop [0..<cols] (fill_pixel this rows cols data fl pAngle j) st = Inr st' \<and>
              cloud_inv this rows cols data fl L (j * cols + cols) st'"
  proof (rule for_loop_invariant[where I = "\<lambda>i. cloud_inv this rows cols data fl L (j * cols + i)"])
    show "cloud_inv this rows cols data fl L (j * cols + 0) st" using inv by simp
  next
    fix i t
    assume "i < cols" and "cloud_inv this rows cols data fl L (j * cols + i) t"
    then show "\<exists>t'. fill_pixel this rows cols data fl pAngle j i t = Inr t' \<and>
                    cloud_inv this rows cols data fl L (j * cols + Suc i) t'"
      using fill_pixel_step[OF j _ nowrap data L _ pa] by simp
  qed
  then show ?thesis by (simp add: add.commute)
qed

lemma fill_rows:
  assumes nowrap: "rows * cols * 4 < 2 ^ 32"
    and data: "rows * cols \<le> length data" and L: "rows * cols * 4 \<le> length pcd0"
  shows "\<exists>st. for_loop [0..<rows]
                (\<lambda>j. let pAngle = (if rows > 1 then atan2 (real j - 0.5 * real (rows - 1)) fl else 0)
                      in for_loop [0..<cols] (fill_pixel this rows cols data fl pAngle j))
                \<lparr>cf_index = 0, cf_points = [], cf_pcd = pcd0, cf_dense = True\<rparr> = Inr st \<and>
              cloud_inv this rows cols data fl (length pcd0) (rows * cols) st"
proof (rule for_loop_invariant[where I = "\<lambda>j. cloud_inv this rows cols data fl (length pcd0) (j * cols)"])
  show "cloud_inv this rows cols data fl (length pcd0) (0 * cols)
          \<lparr>cf_index = 0, cf_points = [], cf_pcd = pcd0, cf_dense = True\<rparr>"
    by (simp add: cloud_inv_def)
next
  fix j t
  assume "j < rows" and "cloud_inv this rows cols data fl (length pcd0) (j * cols) t"
  then show "\<exists>t'. (let pAngle = (if rows > 1 then atan2 (real j - 0.5 * real (rows - 1)) fl else 0)
                   in for_loop [0..<cols] (fill_pixel this rows cols data fl pAngle j)) t = Inr t' \<and>
                  cloud_inv this rows cols data fl (length pcd0) (Suc j * cols) t'"
    unfolding Let_def
    by (intro fill_row[OF _ nowrap data L]) (simp_all add: axis_tan_def)
qed

lemma cloud_inv_nth:
  assumes "cloud_inv this rows cols data fl L n st" and "k < n"
  shows "cf_points st ! k = cloud_point this rows cols data fl k"
    and "cf_pcd st ! (4 * k) = pt_x (cloud_point this rows cols data fl k)"
    and "cf_pcd st ! (4 * k + 1) = pt_y (cloud_point this rows cols data fl k)"
    and "cf_pcd st ! (4 * k + 2) =
           (if fgt (data ! k) (point_cloud_cutoff_' this) then data ! k else Fin 0)"
    and "cf_pcd st ! (4 * k + 3) = Fin 0"
  using assms unfolding cloud_inv_def by blast+

text \<open>
  The conversion returns whenever the grid holds a sample for every pixel, the cached grid
  is null or holds four floats for every pixel, and \<open>rows * cols * 4\<close> is below
  \<open>2^32\<close>; its result satisfies the invariant for all \<open>rows * cols\<close> pixels.
\<close>

lemma FillPointCloudHelper_result:
  assumes nowrap: "rows * cols * 4 < 2 ^ 32"
    and data: "rows * cols \<le> length data"
    and pcd: "case pcd_' this of None \<Rightarrow> True | Some p \<Rightarrow> rows * cols * 4 \<le> length p"
  shows "\<exists>st L. FillPointCloudHelper this msg rows cols step data =
             Inr (this\<lparr>pcd_' := Some (cf_pcd st)\<rparr>,
                  msg\<lparr>pc_points := cf_points st, is_dense := cf_dense st\<rparr>) \<and>
           cloud_inv this rows cols data (real (width this) / (2 * tan (sensor_hfov this / 2)))
             L (rows * cols) st"
proof -
  define pcd0 where "pcd0 = (case pcd_' this of
                      None \<Rightarrow> replicate (u32 (rows * cols * 4)) (Fin 0) | Some p \<Rightarrow> p)"
  have "u32 (rows * cols * 4) = rows * cols * 4" using nowrap by (simp add: u32_def)
  then have L: "rows * cols * 4 \<le> length pcd0"
    using pcd by (simp add: pcd0_def split: option.splits)
  from fill_rows[OF nowrap data L, of "real (width this) / (2 * tan (sensor_hfov this / 2))" this]
  show ?thesis
    unfolding FillPointCloudHelper_def Let_def pcd0_def[symmetric]
    by (auto simp add: bind_def)
qed

text \<open>
  The conversion run on a grid of two rows and two columns with a field of view of a
  right angle and the default cutoff: the focal length is \<open>1\<close>, the tangents are
  \<open>- 1/2\<close> and \<open>1/2\<close>, the second sample is below the cutoff.
\<close>

lemma FillPointCloudHelper_example: "FillPointCloudHelper (loaded_plugin 2 2 (pi / 2)) empty_cloud 2 2 1
        [Fin (5 / 10), Fin (3 / 10), Fin (5 / 10), Fin (5 / 10)] =
   Inr ((loaded_plugin 2 2 (pi / 2))\<lparr>pcd_' := Some
          [Fin (- (1 / 4)), Fin (- (1 / 4)), Fin (1 / 2), Fin 0,
           NaN, NaN, Fin 0, Fin 0,
           Fin (- (1 / 4)), Fin (1 / 4), Fin (1 / 2), Fin 0,
           Fin (1 / 4), Fin (1 / 4), Fin (1 / 2), Fin 0]\<rparr>,
        empty_cloud\<lparr>pc_points :=
          [\<lparr>pt_x = Fin (- (1 / 4)), pt_y = Fin (- (1 / 4)), pt_z = Fin (1 / 2), pt_rgb0 = 0, pt_rgb1 = 0, pt_rgb2 = 0\<rparr>,
           \<lparr>pt_x = NaN, pt_y = NaN, pt_z = NaN, pt_rgb0 = 0, pt_rgb1 = 0, pt_rgb2 = 0\<rparr>,
           \<lparr>pt_x = Fin (- (1 / 4)), pt_y = Fin (1 / 4), pt_z = Fin (1 / 2), pt_rgb0 = 0, pt_rgb1 = 0, pt_rgb2 = 0\<rparr>,
           \<lparr>pt_x = Fin (1 / 4), pt_y = Fin (1 / 4), pt_z = Fin (1 / 2), pt_rgb0 = 0, pt_rgb1 = 0, pt_rgb2 = 0\<rparr>],
          is_dense := False\<rparr>)"
  by (simp add: FillPointCloudHelper_def fill_pixel_def fuse_color_def loaded_plugin_def
      bind_def read_at_def write_at_def u32_def Let_def upt2 atan2_def tan_arctan tan_45
      replicate16)

text \<open>
  Claim C1, amended. For every depth grid of \<open>rows * cols\<close> samples (with
  \<open>rows * cols * 4 < 2^32\<close>, and a cached grid that is null or holds four floats for
  every pixel) \<^verbatim>\<open>FillPointCloudHelper\<close> returns, and for every pixel whose sample
  \<open>d\<close> is above the cutoff the point's \<open>z\<close> is exactly \<open>d\<close>, and so is the
  \<open>z\<close>-slot of the cached grid. The dense flag of the message is true exactly when
  every sample of the grid is above the cutoff.
\<close>

theorem cloud_valid_pixels:
  assumes "rows * cols * 4 < 2 ^ 32"
    and "rows * cols \<le> length data"
    and "case pcd_' this of None \<Rightarrow> True | Some p \<Rightarrow> rows * cols * 4 \<le> length p"
  shows "\<exists>this' msg' pcd.
           FillPointCloudHelper this msg rows cols step data = Inr (this', msg') \<and>
           pcd_' this' = Some pcd \<and>
           length (pc_points msg') = rows * cols \<and>
           (\<forall>j<rows. \<forall>i<cols.
              fgt (data ! (j * cols + i)) (point_cloud_cutoff_' this) \<longrightarrow>
                pt_z (pc_points msg' ! (j * cols + i)) = data ! (j * cols + i) \<and>
                pcd ! (4 * (j * cols + i) + 2) = data ! (j * cols + i)) \<and>
           (is_dense msg' \<longleftrightarrow> (\<forall>k<rows * cols. fgt (data ! k) (point_cloud_cutoff_' this)))"
proof -
  from FillPointCloudHelper_result[OF assms, of msg step]
  obtain st L where r: "FillPointCloudHelper this msg rows cols step data =
             Inr (this\<lparr>pcd_' := Some (cf_pcd st)\<rparr>,
                  msg\<lparr>pc_points := cf_points st, is_dense := cf_dense st\<rparr>)"
    and inv: "cloud_inv this rows cols data (real (width this) / (2 * tan (sensor_hfov this / 2)))
             L (rows * cols) st"
    by blast
  have "pt_z (cf_points st ! (j * cols + i)) = data ! (j * cols + i) \<and>
        cf_pcd st ! (4 * (j * cols + i) + 2) = data ! (j * cols + i)"
    if "j < rows" and "i < cols" and "fgt (data ! (j * cols + i)) (point_cloud_cutoff_' this)"
    for j i
  proof -
    have k: "j * cols + i < rows * cols" using that(1,2) by (rule flat_index_less)
    show ?thesis
      using that(3) cloud_inv_nth[OF inv k] by (simp add: cloud_point_def Let_def)
  qed
  moreover have "length (cf_points st) = rows * cols"
    and "cf_dense st \<longleftrightarrow> (\<forall>k<rows * cols. fgt (data ! k) (point_cloud_cutoff_' this))"
    using inv by (simp_all add: cloud_inv_def)
  ultimately show ?thesis using r by simp
qed

text \<open>
  The theorem at the grid \<open>[0.5, 0.3, 0.5, 0.5]\<close> of two rows and two columns with
  the default cutoff \<open>0.4\<close>: the first and the last point keep their depth, and the
  message is not dense.
\<close>

theorem cloud_valid_pixels_witness:
  "(2::nat) * 2 * 4 < 2 ^ 32 \<and>
   2 * 2 \<le> length [Fin (5 / 10), Fin (3 / 10), Fin (5 / 10), Fin (5 / 10)] \<and>
   (case pcd_' (loaded_plugin 2 2 (pi / 2)) of None \<Rightarrow> True | Some p \<Rightarrow> 2 * 2 * 4 \<le> length p) \<and>
   (\<exists>this' msg' pcd.
      FillPointCloudHelper (loaded_plugin 2 2 (pi / 2)) empty_cloud 2 2 1
        [Fin (5 / 10), Fin (3 / 10), Fin (5 / 10), Fin (5 / 10)] = Inr (this', msg') \<and>
      pcd_' this' = Some pcd \<and>
      length (pc_points msg') = 4 \<and>
      pt_z (pc_points msg' ! 0) = Fin (5 / 10) \<and> pcd ! 2 = Fin (5 / 10) \<and>
      pt_z (pc_points msg' ! 3) = Fin (5 / 10) \<and> pcd ! 14 = Fin (5 / 10) \<and>
      \<not> is_dense msg')"
proof -
  let ?d = "[Fin (5 / 10), Fin (3 / 10), Fin (5 / 10), Fin (5 / 10)]"
  have h1: "(2::nat) * 2 * 4 < 2 ^ 32" by simp
  have h2: "2 * 2 \<le> length ?d" by simp
  have h3: "case pcd_' (loaded_plugin 2 2 (pi / 2)) of None \<Rightarrow> True | Some p \<Rightarrow> 2 * 2 * 4 \<le> length p"
    by (simp add: loaded_plugin_def)
  from cloud_valid_pixels[OF h1 h2 h3, of empty_cloud 1]
  obtain this' msg' pcd where r:
    "FillPointCloudHelper (loaded_plugin 2 2 (pi / 2)) empty_cloud 2 2 1 ?d = Inr (this', msg')"
    "pcd_' this' = Some pcd" "length (pc_points msg') = 2 * 2"
    and px: "\<forall>j<2. \<forall>i<2. fgt (?d ! (j * 2 + i)) (point_cloud_cutoff_' (loaded_plugin 2 2 (pi / 2))) \<longrightarrow>
                pt_z (pc_points msg' ! (j * 2 + i)) = ?d ! (j * 2 + i) \<and>
                pcd ! (4 * (j * 2 + i) + 2) = ?d ! (j * 2 + i)"
    and dn: "is_dense msg' \<longleftrightarrow> (\<forall>k<2 * 2. fgt (?d ! k) (point_cloud_cutoff_' (loaded_plugin 2 2 (pi / 2))))"
    by blast
  have c: "point_cloud_cutoff_' (loaded_plugin w h f) = Fin (4 / 10)" for w h f
    by (simp add: loaded_plugin_def)
  from px[rule_format, of 0 0] have p0: "pt_z (pc_points msg' ! 0) = Fin (5 / 10)" "pcd ! 2 = Fin (5 / 10)"
    by (simp_all add: c numeral_2_eq_2)
  from px[rule_format, of 1 1] have p3: "pt_z (pc_points msg' ! 3) = Fin (5 / 10)" "pcd ! 14 = Fin (5 / 10)"
    by (simp_all add: c)
  have "\<not> (\<forall>k<2 * 2. fgt (?d ! k) (point_cloud_cutoff_' (loaded_plugin 2 2 (pi / 2))))"
    by (rule notI, drule spec[of _ 1]) (simp add: c)
  with dn have nd: "\<not> is_dense msg'" by simp
  show ?thesis using h1 h2 h3 r p0 p3 nd by auto
qed

text \<open>
  Claim C1 as stated lets the dense flag stay true when no sample is at or below the
  cutoff. A sample that is not a number is not at or below the cutoff, and it is not above
  it either: the code takes the branch of the unseeable range and clears the flag.
\<close>

theorem cloud_dense_flag_nan_sample:
  "\<not> fle NaN (point_cloud_cutoff_' (loaded_plugin 1 1 (pi / 2))) \<and>
   FillPointCloudHelper (loaded_plugin 1 1 (pi / 2)) empty_cloud 1 1 1 [NaN] =
     Inr ((loaded_plugin 1 1 (pi / 2))\<lparr>pcd_' := Some [NaN, NaN, Fin 0, Fin 0]\<rparr>,
          empty_cloud\<lparr>pc_points := [\<lparr>pt_x = NaN, pt_y = NaN, pt_z = NaN,
                                      pt_rgb0 = 0, pt_rgb1 = 0, pt_rgb2 = 0\<rparr>],
                      is_dense := False\<rparr>)"
  by (simp add: FillPointCloudHelper_def fill_pixel_def fuse_color_def loaded_plugin_def
      bind_def read_at_def write_at_def u32_def Let_def replicate4)

text \<open>
  Claim C2, amended. For every such grid and every pixel whose sample is at or below the
  cutoff, the point's \<open>x\<close>, \<open>y\<close> and \<open>z\<close> in the message are not-a-number, the
  dense flag is false, the \<open>z\<close>-slot of the cached grid is \<open>0\<close>, and the \<open>x\<close>
  and \<open>y\<close> slots of the cached grid hold the same not-a-number as the message: they are
  copied from the message's fields after the sentinel has overwritten them.
\<close>

theorem cloud_invalid_pixels:
  assumes "rows * cols * 4 < 2 ^ 32"
    and "rows * cols \<le> length data"
    and "case pcd_' this of None \<Rightarrow> True | Some p \<Rightarrow> rows * cols * 4 \<le> length p"
    and "j < rows" and "i < cols"
    and "fle (data ! (j * cols + i)) (point_cloud_cutoff_' this)"
  shows "\<exists>this' msg' pcd.
           FillPointCloudHelper this msg rows cols step data = Inr (this', msg') \<and>
           pcd_' this' = Some pcd \<and>
           pt_x (pc_points msg' ! (j * cols + i)) = NaN \<and>
           pt_y (pc_points msg' ! (j * cols + i)) = NaN \<and>
           pt_z (pc_points msg' ! (j * cols + i)) = NaN \<and>
           \<not> is_dense msg' \<and>
           pcd ! (4 * (j * cols + i) + 2) = Fin 0 \<and>
           pcd ! (4 * (j * cols + i)) = NaN \<and>
           pcd ! (4 * (j * cols + i) + 1) = NaN"
proof -
  from FillPointCloudHelper_result[OF assms(1-3), of msg step]
  obtain st L where r: "FillPointCloudHelper this msg rows cols step data =
             Inr (this\<lparr>pcd_' := Some (cf_pcd st)\<rparr>,
                  msg\<lparr>pc_points := cf_points st, is_dense := cf_dense st\<rparr>)"
    and inv: "cloud_inv this rows cols data (real (width this) / (2 * tan (sensor_hfov this / 2)))
             L (rows * cols) st"
    by blast
  have k: "j * cols + i < rows * cols" using assms(4,5) by (rule flat_index_less)
  have nv: "\<not> fgt (data ! (j * cols + i)) (point_cloud_cutoff_' this)"
    using assms(6) by (rule fle_not_fgt)
  have "pt_x (cf_points st ! (j * cols + i)) = NaN"
    "pt_y (cf_points st ! (j * cols + i)) = NaN"
    "pt_z (cf_points st ! (j * cols + i)) = NaN"
    "cf_pcd st ! (4 * (j * cols + i) + 2) = Fin 0"
    "cf_pcd st ! (4 * (j * cols + i)) = NaN"
    "cf_pcd st ! (4 * (j * cols + i) + 1) = NaN"
    using nv cloud_inv_nth[OF inv k] by (simp_all add: cloud_point_def Let_def)
  moreover have "\<not> cf_dense st"
    using inv k nv by (auto simp add: cloud_inv_def)
  ultimately show ?thesis using r by simp
qed

text \<open>
  The theorem at the second pixel (row \<open>0\<close>, column \<open>1\<close>, depth \<open>0.3\<close>) of the
  grid above.
\<close>

theorem cloud_invalid_pixels_witness:
  "(2::nat) * 2 * 4 < 2 ^ 32 \<and>
   2 * 2 \<le> length [Fin (5 / 10), Fin (3 / 10), Fin (5 / 10), Fin (5 / 10)] \<and>
   (case pcd_' (loaded_plugin 2 2 (pi / 2)) of None \<Rightarrow> True | Some p \<Rightarrow> 2 * 2 * 4 \<le> length p) \<and>
   (0::nat) < 2 \<and> (1::nat) < 2 \<and>
   fle ([Fin (5 / 10), Fin (3 / 10), Fin (5 / 10), Fin (5 / 10)] ! (0 * 2 + 1))
     (point_cloud_cutoff_' (loaded_plugin 2 2 (pi / 2))) \<and>
   (\<exists>this' msg' pcd.
      FillPointCloudHelper (loaded_plugin 2 2 (pi / 2)) empty_cloud 2 2 1
        [Fin (5 / 10), Fin (3 / 10), Fin (5 / 10), Fin (5 / 10)] = Inr (this', msg') \<and>
      pcd_' this' = Some pcd \<and>
      pt_x (pc_points msg' ! (0 * 2 + 1)) = NaN \<and>
      pt_y (pc_points msg' ! (0 * 2 + 1)) = NaN \<and>
      pt_z (pc_points msg' ! (0 * 2 + 1)) = NaN \<and>
      \<not> is_dense msg' \<and>
      pcd ! (4 * (0 * 2 + 1) + 2) = Fin 0 \<and>
      pcd ! (4 * (0 * 2 + 1)) = NaN \<and>
      pcd ! (4 * (0 * 2 + 1) + 1) = NaN)"
proof -
  let ?d = "[Fin (5 / 10), Fin (3 / 10), Fin (5 / 10), Fin (5 / 10)]"
  have h1: "(2::nat) * 2 * 4 < 2 ^ 32" by simp
  have h2: "2 * 2 \<le> length ?d" by simp
  have h3: "case pcd_' (loaded_plugin 2 2 (pi / 2)) of None \<Rightarrow> True | Some p \<Rightarrow> 2 * 2 * 4 \<le> length p"
    by (simp add: loaded_plugin_def)
  have h4: "(0::nat) < 2" and h5: "(1::nat) < 2" by simp_all
  have h6: "fle (?d ! (0 * 2 + 1)) (point_cloud_cutoff_' (loaded_plugin 2 2 (pi / 2)))"
    by (simp add: loaded_plugin_def)
  show ?thesis
    by (intro conjI h1 h2 h3 h4 h5 h6 cloud_invalid_pixels[OF h1 h2 h3 h4 h5 h6])
qed

text \<open>
  Claim C2 as stated has the cached \<open>x\<close> and \<open>y\<close> slots keep the tangent-scaled
  values. For the second pixel of the grid above, with a field of view of a right angle, the
  tangent-scaled \<open>x\<close> is \<open>0.3 * 0.5 = 0.15\<close>; the cached slots \<open>4\<close> and \<open>5\<close>
  hold not-a-number.
\<close>

theorem cloud_invalid_pixel_cache_slots:
  "fle (Fin (3 / 10)) (point_cloud_cutoff_' (loaded_plugin 2 2 (pi / 2))) \<and>
   fmul (Fin (3 / 10))
     (Fin (tan (atan2 (real 1 - 0.5 * real (2 - 1)) (real 2 / (2 * tan (pi / 2 / 2)))))) =
     Fin (15 / 100) \<and>
   (\<exists>this' msg' pcd.
      FillPointCloudHelper (loaded_plugin 2 2 (pi / 2)) empty_cloud 2 2 1
        [Fin (5 / 10), Fin (3 / 10), Fin (5 / 10), Fin (5 / 10)] = Inr (this', msg') \<and>
      pcd_' this' = Some pcd \<and> pcd ! 4 = NaN \<and> pcd ! 5 = NaN)"
proof -
  have a: "fle (Fin (3 / 10)) (point_cloud_cutoff_' (loaded_plugin 2 2 (pi / 2)))"
    by (simp add: loaded_plugin_def)
  have b: "fmul (Fin (3 / 10))
     (Fin (tan (atan2 (real 1 - 0.5 * real (2 - 1)) (real 2 / (2 * tan (pi / 2 / 2)))))) =
     Fin (15 / 100)"
    by (simp add: atan2_def tan_arctan tan_45)
  have c: "\<exists>this' msg' pcd.
      FillPointCloudHelper (loaded_plugin 2 2 (pi / 2)) empty_cloud 2 2 1
        [Fin (5 / 10), Fin (3 / 10), Fin (5 / 10), Fin (5 / 10)] = Inr (this', msg') \<and>
      pcd_' this' = Some pcd \<and> pcd ! 4 = NaN \<and> pcd ! 5 = NaN"
    by (simp add: FillPointCloudHelper_def fill_pixel_def fuse_color_def loaded_plugin_def
      bind_def read_at_def write_at_def u32_def Let_def upt2)
  show ?thesis using a b c by blast
qed

text \<open>
  Claim C6. For every cached colour buffer, the conversion of such a grid returns, and the
  colour of the point in column \<open>i\<close>, row \<open>j\<close> is: the three bytes at
  \<open>i * 3 + j * cols * 3 + {0, 1, 2}\<close> when the buffer holds \<open>rows * cols * 3\<close>
  bytes; three times the byte at \<open>i + j * cols\<close> when it holds \<open>rows * cols\<close> bytes;
  three zeros for any other length.
\<close>

theorem fused_colors:
  assumes "rows * cols * 4 < 2 ^ 32"
    and "rows * cols \<le> length data"
    and "case pcd_' this of None \<Rightarrow> True | Some p \<Rightarrow> rows * cols * 4 \<le> length p"
    and "j < rows" and "i < cols"
  shows "\<exists>this' msg'.
           FillPointCloudHelper this msg rows cols step data = Inr (this', msg') \<and>
           (length (image_msg_data this) = rows * cols * 3 \<longrightarrow>
              pt_rgb0 (pc_points msg' ! (j * cols + i)) = image_msg_data this ! (i * 3 + j * cols * 3 + 0) \<and>
              pt_rgb1 (pc_points msg' ! (j * cols + i)) = image_msg_data this ! (i * 3 + j * cols * 3 + 1) \<and>
              pt_rgb2 (pc_points msg' ! (j * cols + i)) = image_msg_data this ! (i * 3 + j * cols * 3 + 2)) \<and>
           (length (image_msg_data this) = rows * cols \<longrightarrow>
              pt_rgb0 (pc_points msg' ! (j * cols + i)) = image_msg_data this ! (i + j * cols) \<and>
              pt_rgb1 (pc_points msg' ! (j * cols + i)) = image_msg_data this ! (i + j * cols) \<and>
              pt_rgb2 (pc_points msg' ! (j * cols + i)) = image_msg_data this ! (i + j * cols)) \<and>
           (length (image_msg_data this) \<noteq> rows * cols * 3 \<and>
            length (image_msg_data this) \<noteq> rows * cols \<longrightarrow>
              pt_rgb0 (pc_points msg' ! (j * cols + i)) = 0 \<and>
              pt_rgb1 (pc_points msg' ! (j * cols + i)) = 0 \<and>
              pt_rgb2 (pc_points msg' ! (j * cols + i)) = 0)"
proof -
  from FillPointCloudHelper_result[OF assms(1-3), of msg step]
  obtain st L where r: "FillPointCloudHelper this msg rows cols step data =
             Inr (this\<lparr>pcd_' := Some (cf_pcd st)\<rparr>,
                  msg\<lparr>pc_points := cf_points st, is_dense := cf_dense st\<rparr>)"
    and inv: "cloud_inv this rows cols data (real (width this) / (2 * tan (sensor_hfov this / 2)))
             L (rows * cols) st"
    by blast
  have k: "j * cols + i < rows * cols" using assms(4,5) by (rule flat_index_less)
  have pos: "0 < rows * cols" using assms(4,5) by simp
  have p: "cf_points st ! (j * cols + i) =
             cloud_point this rows cols data (real (width this) / (2 * tan (sensor_hfov this / 2)))
               (j * cols + i)"
    by (rule cloud_inv_nth[OF inv k])
  have dm: "(j * cols + i) div cols = j" "(j * cols + i) mod cols = i"
    using assms(5) by simp_all
  show ?thesis
    using r pos assms(5) by (simp add: p cloud_point_def pixel_color_def Let_def)
qed

text \<open>
  The theorem at a grid of one row and two columns with the colour buffer
  \<open>[1, 2, 3, 4, 5, 6]\<close>: the second point gets the bytes \<open>4, 5, 6\<close>.
\<close>

theorem fused_colors_witness:
  "(1::nat) * 2 * 4 < 2 ^ 32 \<and>
   1 * 2 \<le> length [Fin 1, Fin 1] \<and>
   (case pcd_' ((loaded_plugin 2 1 (pi / 2))\<lparr>image_msg_data := [1, 2, 3, 4, 5, 6]\<rparr>) of
      None \<Rightarrow> True | Some p \<Rightarrow> 1 * 2 * 4 \<le> length p) \<and>
   (0::nat) < 1 \<and> (1::nat) < 2 \<and>
   (\<exists>this' msg'.
      FillPointCloudHelper ((loaded_plugin 2 1 (pi / 2))\<lparr>image_msg_data := [1, 2, 3, 4, 5, 6]\<rparr>)
        empty_cloud 1 2 1 [Fin 1, Fin 1] = Inr (this', msg') \<and>
      pt_rgb0 (pc_points msg' ! 1) = 4 \<and>
      pt_rgb1 (pc_points msg' ! 1) = 5 \<and>
      pt_rgb2 (pc_points msg' ! 1) = 6)"
proof -
  let ?s = "(loaded_plugin 2 1 (pi / 2))\<lparr>image_msg_data := [1, 2, 3, 4, 5, 6]\<rparr>"
  have h1: "(1::nat) * 2 * 4 < 2 ^ 32" by simp
  have h2: "1 * 2 \<le> length [Fin 1, Fin 1]" by simp
  have h3: "case pcd_' ?s of None \<Rightarrow> True | Some p \<Rightarrow> 1 * 2 * 4 \<le> length p"
    by (simp add: loaded_plugin_def)
  have h4: "(0::nat) < 1" and h5: "(1::nat) < 2" by simp_all
  from fused_colors[OF h1 h2 h3 h4 h5, of empty_cloud 1]
  obtain this' msg' where r: "FillPointCloudHelper ?s empty_cloud 1 2 1 [Fin 1, Fin 1] = Inr (this', msg')"
    and c: "length (image_msg_data ?s) = 1 * 2 * 3 \<longrightarrow>
              pt_rgb0 (pc_points msg' ! (0 * 2 + 1)) = image_msg_data ?s ! (1 * 3 + 0 * 2 * 3 + 0) \<and>
              pt_rgb1 (pc_points msg' ! (0 * 2 + 1)) = image_msg_data ?s ! (1 * 3 + 0 * 2 * 3 + 1) \<and>
              pt_rgb2 (pc_points msg' ! (0 * 2 + 1)) = image_msg_data ?s ! (1 * 3 + 0 * 2 * 3 + 2)"
    by blast
  have "pt_rgb0 (pc_points msg' ! 1) = 4 \<and> pt_rgb1 (pc_points msg' ! 1) = 5 \<and>
        pt_rgb2 (pc_points msg' ! 1) = 6"
    using c by (simp add: nth_Cons')
  with r h1 h2 h3 h4 h5 show ?thesis by blast
qed

section \<open>The depth raster\<close>











section \<open>The callbacks\<close>

text \<open>
  Claim C9. When the plugin is not initialised, or its configured height or width is not
  positive, each of the depth, colour, normals and reflectance callbacks returns without an
  error and leaves the object, and with it the record of requests and published messages,
  as it was.
\<close>

theorem frame_callbacks_skip_when_not_ready:
  assumes "\<not> initialized_' this \<or> height_' this \<le> 0 \<or> width_' this \<le> 0"
  shows "OnNewDepthFrame doTransform frame w h this = Inr this \<and>
         OnNewImageFrame PutCameraData image_frame w h this = Inr this \<and>
         OnNewNormalsFrame normals w h this = Inr this \<and>
         OnNewReflectanceFrame reflectance w h this = Inr this"
  using assms
  by (auto simp add: OnNewDepthFrame_def OnNewImageFrame_def OnNewNormalsFrame_def
      OnNewReflectanceFrame_def)

theorem frame_callbacks_skip_when_not_ready_witness:
  "\<not> initialized_' ((loaded_plugin 2 2 (pi / 2))\<lparr>initialized_' := False\<rparr>) \<and>
   OnNewDepthFrame (\<lambda>c t. c) [Fin 1, Fin 1, Fin 1, Fin 1] 2 2
     ((loaded_plugin 2 2 (pi / 2))\<lparr>initialized_' := False\<rparr>) =
     Inr ((loaded_plugin 2 2 (pi / 2))\<lparr>initialized_' := False\<rparr>) \<and>
   OnNewImageFrame (\<lambda>f s. s\<lparr>image_msg_data := f\<rparr>) [1, 2, 3, 4] 2 2
     ((loaded_plugin 2 2 (pi / 2))\<lparr>initialized_' := False\<rparr>) =
     Inr ((loaded_plugin 2 2 (pi / 2))\<lparr>initialized_' := False\<rparr>) \<and>
   OnNewNormalsFrame (replicate 16 (Fin 0)) 2 2
     ((loaded_plugin 2 2 (pi / 2))\<lparr>initialized_' := False\<rparr>) =
     Inr ((loaded_plugin 2 2 (pi / 2))\<lparr>initialized_' := False\<rparr>) \<and>
   OnNewReflectanceFrame [Fin 1, Fin 1, Fin 1, Fin 1] 2 2
     ((loaded_plugin 2 2 (pi / 2))\<lparr>initialized_' := False\<rparr>) =
     Inr ((loaded_plugin 2 2 (pi / 2))\<lparr>initialized_' := False\<rparr>)"
proof -
  have h: "\<not> initialized_' ((loaded_plugin 2 2 (pi / 2))\<lparr>initialized_' := False\<rparr>)"
    by simp
  then have "\<not> initialized_' ((loaded_plugin 2 2 (pi / 2))\<lparr>initialized_' := False\<rparr>) \<or>
      height_' ((loaded_plugin 2 2 (pi / 2))\<lparr>initialized_' := False\<rparr>) \<le> 0 \<or>
      width_' ((loaded_plugin 2 2 (pi / 2))\<lparr>initialized_' := False\<rparr>) \<le> 0"
    by (rule disjI1)
  from frame_callbacks_skip_when_not_ready[OF this] h show ?thesis by blast
qed

text \<open>
  Claim C10. A normal frame that arrives while the sensor is active and the normals
  counter is positive, before any depth frame has allocated the cached grid, publishes one
  marker array, and the array is empty.
\<close>

theorem normals_frame_without_cached_grid:
  assumes "initialized_' this" and "height_' this > 0" and "width_' this > 0"
    and "sensor_active this" and "normals_connect_count_' this > 0" and "pcd_' this = None"
  shows "OnNewNormalsFrame normals w h this =
           Inr (this\<lparr>events := events this @ [PublishNormals []]\<rparr>)"
  using assms by (simp add: OnNewNormalsFrame_def bind_def)

theorem normals_frame_without_cached_grid_witness:
  "initialized_' ((loaded_plugin 2 2 (pi / 2))\<lparr>sensor_active := True, normals_connect_count_' := 1\<rparr>) \<and>
   height_' ((loaded_plugin 2 2 (pi / 2))\<lparr>sensor_active := True, normals_connect_count_' := 1\<rparr>) > 0 \<and>
   width_' ((loaded_plugin 2 2 (pi / 2))\<lparr>sensor_active := True, normals_connect_count_' := 1\<rparr>) > 0 \<and>
   sensor_active ((loaded_plugin 2 2 (pi / 2))\<lparr>sensor_active := True, normals_connect_count_' := 1\<rparr>) \<and>
   normals_connect_count_' ((loaded_plugin 2 2 (pi / 2))\<lparr>sensor_active := True, normals_connect_count_' := 1\<rparr>) > 0 \<and>
   pcd_' ((loaded_plugin 2 2 (pi / 2))\<lparr>sensor_active := True, normals_connect_count_' := 1\<rparr>) = None \<and>
   OnNewNormalsFrame (replicate 16 (Fin 0)) 2 2
     ((loaded_plugin 2 2 (pi / 2))\<lparr>sensor_active := True, normals_connect_count_' := 1\<rparr>) =
     Inr ((loaded_plugin 2 2 (pi / 2))
            \<lparr>sensor_active := True, normals_connect_count_' := 1,
             events := events ((loaded_plugin 2 2 (pi / 2))
                                 \<lparr>sensor_active := True, normals_connect_count_' := 1\<rparr>) @
                       [PublishNormals []]\<rparr>)"
proof -
  let ?s = "(loaded_plugin 2 2 (pi / 2))\<lparr>sensor_active := True, normals_connect_count_' := 1\<rparr>"
  have h: "initialized_' ?s" "height_' ?s > 0" "width_' ?s > 0" "sensor_active ?s"
    "normals_connect_count_' ?s > 0" "pcd_' ?s = None"
    by (simp_all add: loaded_plugin_def)
  from normals_frame_without_cached_grid[OF h] h show ?thesis by simp
qed

text \<open>
  A depth frame delivered to an inactive sensor converts nothing; it asks for activation
  when the point cloud counter is positive or the depth image counter is \<^emph>\<open>not\<close>
  positive. A depth frame delivered to an active sensor with no counter positive asks for
  deactivation and converts nothing.
\<close>

lemma OnNewDepthFrame_inactive:
  assumes "initialized_' this" and "height_' this > 0" and "width_' this > 0"
    and "\<not> sensor_active this"
  shows "OnNewDepthFrame doTransform frame w h this =
           Inr (if point_cloud_connect_count_' this > 0 \<or> depth_image_connect_count_' this \<le> 0
                then SetActive_call True
                       (this\<lparr>depth_sensor_update_time_' := sensor_last_measurement_time this\<rparr>)
                else this\<lparr>depth_sensor_update_time_' := sensor_last_measurement_time this\<rparr>)"
  using assms by (simp add: OnNewDepthFrame_def Let_def SetActive_call_def)

lemma OnNewDepthFrame_active_no_subscribers:
  assumes "initialized_' this" and "height_' this > 0" and "width_' this > 0"
    and "sensor_active this"
    and "point_cloud_connect_count_' this \<le> 0" and "depth_image_connect_count_' this \<le> 0"
    and "image_connect_count_' this \<le> 0" and "normals_connect_count_' this \<le> 0"
  shows "OnNewDepthFrame doTransform frame w h this =
           Inr (SetActive_call False
                  (this\<lparr>depth_sensor_update_time_' := sensor_last_measurement_time this\<rparr>))"
  using assms by (simp add: OnNewDepthFrame_def Let_def SetActive_call_def)

text \<open>
  Claim C3 (a depth frame delivered to an inactive sensor with a subscriber asks for
  activation once and publishes nothing): the test of the depth image counter departs from
  it. After \<^verbatim>\<open>DepthImageConnect\<close>, \<^verbatim>\<open>PointCloudConnect\<close> and
  \<^verbatim>\<open>PointCloudDisconnect\<close> the sensor is inactive with one depth image subscriber;
  a depth frame then changes nothing and asks for nothing. With no subscriber at all, the
  same frame asks for activation.
\<close>

theorem depth_frame_inactive_depth_image_subscriber:
  "depth_image_connect_count_'
     (PointCloudDisconnect (PointCloudConnect (DepthImageConnect (loaded_plugin 2 2 (pi / 2))))) = 1 \<and>
   \<not> sensor_active
     (PointCloudDisconnect (PointCloudConnect (DepthImageConnect (loaded_plugin 2 2 (pi / 2))))) \<and>
   OnNewDepthFrame (\<lambda>c t. c) [Fin 1, Fin 1, Fin 1, Fin 1] 2 2
     (PointCloudDisconnect (PointCloudConnect (DepthImageConnect (loaded_plugin 2 2 (pi / 2))))) =
   Inr (PointCloudDisconnect (PointCloudConnect (DepthImageConnect (loaded_plugin 2 2 (pi / 2))))) \<and>
   OnNewDepthFrame (\<lambda>c t. c) [Fin 1, Fin 1, Fin 1, Fin 1] 2 2 (loaded_plugin 2 2 (pi / 2)) =
   Inr (SetActive_call True (loaded_plugin 2 2 (pi / 2)))"
  by (simp add: OnNewDepthFrame_def PointCloudDisconnect_def PointCloudConnect_def
      DepthImageConnect_def SetActive_call_def loaded_plugin_def Let_def)

text \<open>
  After that frame the requests on record are the two activations of the connect
  handlers and the deactivation of the disconnect handler, and no other.
\<close>

theorem depth_frame_inactive_depth_image_subscriber_events:
  "OnNewDepthFrame (\<lambda>c t. c) [Fin 1, Fin 1, Fin 1, Fin 1] 2 2
     (PointCloudDisconnect (PointCloudConnect (DepthImageConnect (loaded_plugin 2 2 (pi / 2))))) =
   Inr (PointCloudDisconnect (PointCloudConnect (DepthImageConnect (loaded_plugin 2 2 (pi / 2))))) \<and>
   events (PointCloudDisconnect (PointCloudConnect (DepthImageConnect (loaded_plugin 2 2 (pi / 2))))) =
     [SetActive True, SetActive True, SetActive False]"
  using depth_frame_inactive_depth_image_subscriber
  by (simp add: PointCloudDisconnect_def PointCloudConnect_def
      DepthImageConnect_def SetActive_call_def loaded_plugin_def Let_def)

section \<open>The marker orientation\<close>

lemma length3_sq: "length3 (a0, a1, a2) * length3 (a0, a1, a2) = a0 * a0 + a1 * a1 + a2 * a2"
proof -
  have "0 \<le> a0 * a0 + a1 * a1 + a2 * a2" by (simp add: add_nonneg_nonneg)
  then show ?thesis by (simp add: length3_def dot_def)
qed

lemma length3_zero_iff: "length3 (a0, a1, a2) = 0 \<longleftrightarrow> a0 = 0 \<and> a1 = 0 \<and> a2 = 0"
proof -
  have "0 \<le> a0 * a0 + a1 * a1 + a2 * a2" by (simp add: add_nonneg_nonneg)
  moreover have "a0 * a0 + a1 * a1 + a2 * a2 = 0 \<longleftrightarrow> a0 = 0 \<and> a1 = 0 \<and> a2 = 0"
    by (metis add_nonneg_eq_0_iff mult_eq_0_iff zero_le_square add_nonneg_nonneg)
  ultimately show ?thesis by (simp add: length3_def dot_def)
qed

lemma axis_angle_quat_unit:
  assumes "length3 axis \<noteq> 0"
  shows "quat_length (axis_angle_quat axis angle) = 1"
proof -
  obtain a0 a1 a2 where ax: "axis = (a0, a1, a2)" by (cases axis) auto
  define d where "d = length3 (a0, a1, a2)"
  define S where "S = sin (angle / 2)"
  define C where "C = cos (angle / 2)"
  have d: "d \<noteq> 0" using assms by (simp add: ax d_def)
  have dd: "d * d = a0 * a0 + a1 * a1 + a2 * a2" unfolding d_def by (rule length3_sq)
  have "a0 / d * S * (a0 / d * S) + a1 / d * S * (a1 / d * S) + a2 / d * S * (a2 / d * S) =
        (a0 * a0 + a1 * a1 + a2 * a2) / (d * d) * (S * S)"
    using d by (simp add: field_simps)
  also have "\<dots> = S * S"
  proof -
    have e: "(a0 * a0 + a1 * a1 + a2 * a2) / (d * d) = 1"
      unfolding dd[symmetric] using d by simp
    show ?thesis unfolding e by simp
  qed
  finally have e2: "a0 / d * S * (a0 / d * S) + a1 / d * S * (a1 / d * S) + a2 / d * S * (a2 / d * S) = S * S" .
  have sc: "S * S + C * C = 1"
    using sin_cos_squared_add[of "angle / 2"] by (simp add: S_def C_def power2_eq_square)
  have "quat_length (a0 / d * S, a1 / d * S, a2 / d * S, C) = 1"
    unfolding quat_length_def prod.case e2 sc by simp
  then show ?thesis
    by (simp add: axis_angle_quat_def ax d_def[symmetric] S_def[symmetric] C_def[symmetric])
qed

lemma setRotation_axis_angle:
  assumes "length3 axis \<noteq> 0"
  shows "setRotation axis angle = Some (axis_angle_quat axis angle)"
  using assms by (cases axis) (simp add: setRotation_def axis_angle_quat_def Let_def)

lemma normalize_unit:
  assumes "quat_length q = 1"
  shows "normalize_q q = Some q"
  using assms by (cases q) (simp add: normalize_q_def Let_def)

lemma cross_reference: "cross (a, b, c) (1, 0, 0) = (0, c, - b)"
  by (simp add: cross_def)

lemma dot_reference: "dot (a, b, c) (1, 0, 0) = a"
  by (simp add: dot_def)

text \<open>
  For a finite normal off the reference axis whose first component is in \<open>[-1, 1]\<close>,
  the library calls build the unit quaternion of the axis \<open>(0, z, - y)\<close>, and the
  normalisation that follows divides by one. On the reference axis the code hands a zero
  axis to \<^verbatim>\<open>setRotation\<close>, and outside \<open>[-1, 1]\<close> the arc cosine is
  undefined; there, and for a component that is not finite, the model's result is
  not-a-number in every component.
\<close>

lemma marker_orientation_finite:
  assumes "\<not> (b = 0 \<and> c = 0)" and "- 1 \<le> a" and "a \<le> 1"
  shows "marker_orientation (Fin a) (Fin b) (Fin c) =
           quat_msg (Some (axis_angle_quat (0, c, - b) (- arccos a)))"
proof -
  have nz: "length3 (0, c, - b) \<noteq> 0" using assms(1) by (auto simp add: length3_zero_iff)
  have u: "quat_length (axis_angle_quat (0, c, - b) (- arccos a)) = 1"
    using nz by (rule axis_angle_quat_unit)
  show ?thesis
    using assms
    by (simp add: marker_orientation_def isZero_def cross_reference dot_reference acos_def
        setRotation_axis_angle[OF nz] normalize_unit[OF u])
qed

lemma marker_orientation_degenerate:
  assumes "a \<noteq> 0" and "b = 0 \<and> c = 0 \<or> a < - 1 \<or> 1 < a"
  shows "marker_orientation (Fin a) (Fin b) (Fin c) = quat_msg None"
  using assms
  by (auto simp add: marker_orientation_def isZero_def cross_reference dot_reference acos_def
      setRotation_def length3_def dot_def Let_def)

lemma marker_orientation_not_finite:
  assumes "\<not> (is_finite x \<and> is_finite y \<and> is_finite z)"
  shows "marker_orientation x y z = quat_msg None"
  using assms by (cases x; cases y; cases z) (simp_all add: marker_orientation_def is_finite_def)

lemma quarter: "sin (pi / 4) = sqrt 2 / 2" "cos (pi / 4) = sqrt 2 / 2"
  by (simp_all add: sin_45 cos_45)

lemma marker_orientation_zero:
  "marker_orientation (Fin 0) (Fin 0) (Fin 0) = quat_msg (Some (0, 0, 0, 1))"
  by (simp add: marker_orientation_def isZero_def getIdentity_def)

lemma quarter_turn:
  "quat_msg (Some (axis_angle_quat (cross (0, 1, 0) (1, 0, 0)) (- arccos (dot (0, 1, 0) (1, 0, 0))))) =
     \<lparr>q_x = Fin 0, q_y = Fin 0, q_z = Fin (sqrt 2 / 2), q_w = Fin (sqrt 2 / 2)\<rparr>"
proof -
  have h: "- (pi / 2) / 2 = - (pi / 4)" by simp
  show ?thesis
    by (simp add: cross_def axis_angle_quat_def length3_def dot_def quat_msg_def h quarter)
qed

section \<open>The markers\<close>

lemma for_loop_collect:
  assumes "\<And>k ms. k \<in> set ks \<Longrightarrow> body k ms = Inr (ms @ g k)"
  shows "for_loop ks body ms = Inr (ms @ concat (map g ks))"
  using assms by (induction ks arbitrary: ms) simp_all

lemma normals_pixel_result:
  assumes i: "i < w" and j: "j < h" and nowrap: "w * h * 4 < 2 ^ 32"
    and stride: "0 < reduce_normals_' this" "reduce_normals_' this < 2 ^ 32"
    and normals: "w * h * 4 \<le> length normals" and pcd: "w * h * 4 \<le> length pcd"
  shows "normals_pixel this normals pcd w i j ms =
           Inr (ms @ sampled (nat (reduce_normals_' this)) (marker_at this normals pcd) (j * w + i))"
proof -
  define n where "n = j * w + i"
  define m where "m = h * w"
  have m: "m * 4 < 4294967296" using nowrap by (simp add: m_def mult.commute)
  have n: "n < m" using j i by (simp add: flat_index_less m_def n_def)
  have u: "u32 n = n" "u32 (4 * n) = 4 * n" "u32 (4 * n + 1) = 4 * n + 1"
    "u32 (4 * n + 2) = 4 * n + 2"
    using n m by (simp_all add: u32_def)
  have st: "nat (reduce_normals_' this mod 2 ^ 32) = nat (reduce_normals_' this)"
    using stride by simp
  have pos: "nat (reduce_normals_' this) \<noteq> 0" using stride by simp
  have s: "s32 n = int n" using n m by (simp add: s32_def)
  have ln: "4 * n + 2 < length normals" and lp: "4 * n + 2 < length pcd"
    using n normals pcd by (simp_all add: m_def mult.commute)
  show ?thesis
    unfolding normals_pixel_def Let_def n_def[symmetric] u st
    using pos ln lp
    by (simp add: read_at_def bind_def s sampled_def marker_at_def)
qed

lemma normals_loops:
  assumes nowrap: "w * h * 4 < 2 ^ 32"
    and stride: "0 < reduce_normals_' this" "reduce_normals_' this < 2 ^ 32"
    and normals: "w * h * 4 \<le> length normals" and pcd: "w * h * 4 \<le> length pcd"
  shows "for_loop [0..<w] (\<lambda>i. for_loop [0..<h] (normals_pixel this normals pcd w i)) [] =
           Inr (concat (map (\<lambda>i. concat (map (\<lambda>j.
                  sampled (nat (reduce_normals_' this)) (marker_at this normals pcd) (j * w + i))
                  [0..<h])) [0..<w]))"
proof -
  have inner: "for_loop [0..<h] (normals_pixel this normals pcd w i) ms =
                 Inr (ms @ concat (map (\<lambda>j.
                  sampled (nat (reduce_normals_' this)) (marker_at this normals pcd) (j * w + i))
                  [0..<h]))"
    if "i \<in> set [0..<w]" for i ms
    using that by (intro for_loop_collect normals_pixel_result[OF _ _ nowrap stride normals pcd]) simp_all
  show ?thesis
    using for_loop_collect[of "[0..<w]" "\<lambda>i. for_loop [0..<h] (normals_pixel this normals pcd w i)"
        "\<lambda>i. concat (map (\<lambda>j.
                  sampled (nat (reduce_normals_' this)) (marker_at this normals pcd) (j * w + i))
                  [0..<h])" "[]", OF inner]
    by simp
qed

lemma sum_rows_cols:
  fixes G :: "nat \<Rightarrow> 'a::comm_monoid_add"
  shows "(\<Sum>j = 0..<h. \<Sum>i = 0..<w. G (j * w + i)) = (\<Sum>k = 0..<h * w. G k)"
proof (induction h)
  case 0
  then show ?case by simp
next
  case (Suc h)
  have "(\<Sum>k = 0..<Suc h * w. G k) = (\<Sum>k = 0..<h * w. G k) + (\<Sum>k = h * w..<h * w + w. G k)"
    by (simp add: sum.atLeastLessThan_concat add.commute)
  also have "(\<Sum>k = h * w..<h * w + w. G k) = (\<Sum>i = 0..<w. G (h * w + i))"
    using sum.shift_bounds_nat_ivl[of G 0 "h * w" w] by (simp add: add.commute)
  finally show ?case using Suc.IH by simp
qed

lemma mset_column_major:
  "mset (concat (map (\<lambda>i. concat (map (\<lambda>j. g (j * w + i)) [0..<h])) [0..<w])) =
   mset (concat (map g [0..<h * w]))"
proof -
  have "mset (concat (map (\<lambda>i. concat (map (\<lambda>j. g (j * w + i)) [0..<h])) [0..<w])) =
        (\<Sum>i = 0..<w. \<Sum>j = 0..<h. mset (g (j * w + i)))"
    by (simp add: mset_concat comp_def interv_sum_list_conv_sum_set_nat)
  also have "\<dots> = (\<Sum>j = 0..<h. \<Sum>i = 0..<w. mset (g (j * w + i)))"
    by (rule sum.swap)
  also have "\<dots> = (\<Sum>k = 0..<h * w. mset (g k))"
    by (rule sum_rows_cols)
  also have "\<dots> = mset (concat (map g [0..<h * w]))"
    by (simp add: mset_concat comp_def interv_sum_list_conv_sum_set_nat)
  finally show ?thesis .
qed

lemma sampled_ids:
  "map m_id (concat (map (sampled stride (marker_at this normals pcd)) [0..<n])) =
   map int (filter (\<lambda>k. k mod stride = 0) [0..<n])"
  by (induction n) (simp_all add: sampled_def marker_at_def)

lemma sampled_members:
  assumes "m \<in> set (concat (map (sampled stride f) [0..<n]))"
  shows "\<exists>k<n. k mod stride = 0 \<and> m = f k"
  using assms by (auto simp add: sampled_def split: if_splits)

lemma length_filter_upt_card: "length (filter P [0..<n]) = card {k. k < n \<and> P k}"
proof -
  have "distinct (filter P [0..<n])" by simp
  then have "card (set (filter P [0..<n])) = length (filter P [0..<n])"
    by (rule distinct_card)
  moreover have "set (filter P [0..<n]) = {k. k < n \<and> P k}" by auto
  ultimately show ?thesis by (simp only:)
qed

lemma OnNewNormalsFrame_publishes:
  assumes "initialized_' this" and "height_' this > 0" and "width_' this > 0"
    and "sensor_active this" and "normals_connect_count_' this > 0"
    and "pcd_' this = Some pcd"
    and "0 < reduce_normals_' this" and "reduce_normals_' this < 2 ^ 31"
    and "w * h * 4 < 2 ^ 32" and "w * h * 4 \<le> length normals" and "w * h * 4 \<le> length pcd"
  shows "OnNewNormalsFrame normals w h this =
           Inr (this\<lparr>events := events this @
                  [PublishNormals
                     (concat (map (\<lambda>i. concat (map (\<lambda>j.
                        sampled (nat (reduce_normals_' this)) (marker_at this normals pcd) (j * w + i))
                        [0..<h])) [0..<w]))]\<rparr>)"
proof -
  have s32: "reduce_normals_' this < 2 ^ 32" using assms(8) by simp
  show ?thesis
    using assms(1-6)
    by (simp add: OnNewNormalsFrame_def bind_def
        normals_loops[OF assms(9) assms(7) s32 assms(10) assms(11)])
qed

lemma column_major_members:
  assumes "m \<in> set (concat (map (\<lambda>i. concat (map (\<lambda>j. sampled N f (j * w + i)) [0..<h])) [0..<w]))"
  shows "\<exists>k<w * h. k mod N = 0 \<and> m = f k"
proof -
  from assms have "m \<in># mset (concat (map (\<lambda>i. concat (map (\<lambda>j. sampled N f (j * w + i)) [0..<h])) [0..<w]))"
    by simp
  then have "m \<in> set (concat (map (sampled N f) [0..<h * w]))"
    unfolding mset_column_major by simp
  from sampled_members[OF this] show ?thesis by (simp add: mult.commute)
qed

text \<open>
  Claim C8, amended. For a normal grid of width \<open>w\<close> and height \<open>h\<close> delivered
  while the sensor is active, the normals counter is positive and the cached grid is
  allocated, and for a positive stride \<open>N\<close> (with \<open>w * h * 4 < 2^32\<close>, and four
  floats for every pixel in the normal frame and in the cached grid), the callback
  publishes one marker array: the number of its markers is the number of flat indices in
  \<open>0..w * h - 1\<close> that \<open>N\<close> divides, their identifiers are exactly those indices,
  and the position of each marker is the \<open>(x, y, z)\<close> of the cached grid at its index.
\<close>

theorem normals_markers_decimated:
  assumes "initialized_' this" and "height_' this > 0" and "width_' this > 0"
    and "sensor_active this" and "normals_connect_count_' this > 0"
    and "pcd_' this = Some pcd"
    and "0 < reduce_normals_' this" and "reduce_normals_' this < 2 ^ 31"
    and "w * h * 4 < 2 ^ 32" and "w * h * 4 \<le> length normals" and "w * h * 4 \<le> length pcd"
  shows "\<exists>markers.
           OnNewNormalsFrame normals w h this =
             Inr (this\<lparr>events := events this @ [PublishNormals markers]\<rparr>) \<and>
           length markers = card {k. k < w * h \<and> k mod nat (reduce_normals_' this) = 0} \<and>
           mset (map m_id markers) =
             mset (map int (filter (\<lambda>k. k mod nat (reduce_normals_' this) = 0) [0..<w * h])) \<and>
           (\<forall>m \<in> set markers.
              m_position m =
                (pcd ! (4 * nat (m_id m)), pcd ! (4 * nat (m_id m) + 1), pcd ! (4 * nat (m_id m) + 2)))"
proof -
  define N where "N = nat (reduce_normals_' this)"
  define f where "f = marker_at this normals pcd"
  define markers where
    "markers = concat (map (\<lambda>i. concat (map (\<lambda>j. sampled N f (j * w + i)) [0..<h])) [0..<w])"
  have s32: "reduce_normals_' this < 2 ^ 32" using assms(8) by simp
  have loops: "for_loop [0..<w] (\<lambda>i. for_loop [0..<h] (normals_pixel this normals pcd w i)) [] =
                 Inr markers"
    unfolding markers_def N_def f_def
    by (rule normals_loops[OF assms(9) assms(7) s32 assms(10) assms(11)])
  have r: "OnNewNormalsFrame normals w h this =
             Inr (this\<lparr>events := events this @ [PublishNormals markers]\<rparr>)"
    using assms(1-6) by (simp add: OnNewNormalsFrame_def loops bind_def)
  have ms: "mset markers = mset (concat (map (sampled N f) [0..<w * h]))"
    unfolding markers_def by (simp add: mset_column_major mult.commute)
  have ids: "mset (map m_id markers) = mset (map int (filter (\<lambda>k. k mod N = 0) [0..<w * h]))"
  proof -
    have "mset (map m_id markers) = image_mset m_id (mset markers)" by simp
    also have "\<dots> = mset (map m_id (concat (map (sampled N f) [0..<w * h])))"
      unfolding ms by simp
    finally show ?thesis unfolding f_def by (simp only: sampled_ids)
  qed
  have len: "length markers = card {k. k < w * h \<and> k mod N = 0}"
  proof -
    have "length markers = size (mset (map m_id markers))" by simp
    also have "\<dots> = length (filter (\<lambda>k. k mod N = 0) [0..<w * h])"
      unfolding ids by (simp only: size_mset length_map)
    also have "\<dots> = card {k. k < w * h \<and> k mod N = 0}"
      by (rule length_filter_upt_card)
    finally show ?thesis .
  qed
  have pos: "m_position m =
                (pcd ! (4 * nat (m_id m)), pcd ! (4 * nat (m_id m) + 1), pcd ! (4 * nat (m_id m) + 2))"
    if "m \<in> set markers" for m
  proof -
    from that have "m \<in># mset markers" by simp
    then have "m \<in> set (concat (map (sampled N f) [0..<w * h]))"
      unfolding ms by simp
    from sampled_members[OF this] obtain k where "m = f k" by auto
    then show ?thesis by (simp add: f_def marker_at_def)
  qed
  show ?thesis
  proof (intro exI[of _ markers] conjI ballI)
    show "OnNewNormalsFrame normals w h this =
            Inr (this\<lparr>events := events this @ [PublishNormals markers]\<rparr>)"
      by (rule r)
    show "length markers = card {k. k < w * h \<and> k mod nat (reduce_normals_' this) = 0}"
      using len unfolding N_def .
    show "mset (map m_id markers) =
            mset (map int (filter (\<lambda>k. k mod nat (reduce_normals_' this) = 0) [0..<w * h]))"
      using ids unfolding N_def .
  next
    fix m assume "m \<in> set markers"
    then show "m_position m =
                (pcd ! (4 * nat (m_id m)), pcd ! (4 * nat (m_id m) + 1), pcd ! (4 * nat (m_id m) + 2))"
      by (rule pos)
  qed
qed

text \<open>
  The theorem at a grid of two rows and two columns with stride \<open>2\<close>: two markers,
  with the identifiers \<open>0\<close> and \<open>2\<close>.
\<close>

theorem normals_markers_decimated_witness:
  "initialized_' example_normals_plugin \<and>
   height_' example_normals_plugin > 0 \<and>
   width_' example_normals_plugin > 0 \<and>
   sensor_active example_normals_plugin \<and>
   normals_connect_count_' example_normals_plugin > 0 \<and>
   pcd_' example_normals_plugin = Some (replicate 16 (Fin 1)) \<and>
   0 < reduce_normals_' example_normals_plugin \<and>
   reduce_normals_' example_normals_plugin < 2 ^ 31 \<and>
   (2::nat) * 2 * 4 < 2 ^ 32 \<and>
   2 * 2 * 4 \<le> length (replicate 16 (Fin 0)) \<and>
   2 * 2 * 4 \<le> length (replicate 16 (Fin 1)) \<and>
   (\<exists>markers.
      OnNewNormalsFrame (replicate 16 (Fin 0)) 2 2 example_normals_plugin =
        Inr (example_normals_plugin
               \<lparr>events := events example_normals_plugin @ [PublishNormals markers]\<rparr>) \<and>
      length markers = 2 \<and>
      mset (map m_id markers) = {#0, 2#})"
proof -
  let ?s = example_normals_plugin
  have h: "initialized_' ?s" "height_' ?s > 0" "width_' ?s > 0" "sensor_active ?s"
    "normals_connect_count_' ?s > 0" "pcd_' ?s = Some (replicate 16 (Fin 1))"
    "0 < reduce_normals_' ?s" "reduce_normals_' ?s < 2 ^ 31"
    "(2::nat) * 2 * 4 < 2 ^ 32" "2 * 2 * 4 \<le> length (replicate 16 (Fin 0))"
    "2 * 2 * 4 \<le> length (replicate 16 (Fin 1))"
    by (simp_all add: example_normals_plugin_def loaded_plugin_def)
  have N: "nat (reduce_normals_' ?s) = 2"
    by (simp add: example_normals_plugin_def)
  have f: "filter (\<lambda>k. k mod 2 = 0) [0..<2 * 2] = [0, 2::nat]"
    by (simp add: upt_rec)
  from normals_markers_decimated[OF h]
  obtain markers where r: "OnNewNormalsFrame (replicate 16 (Fin 0)) 2 2 ?s =
        Inr (?s\<lparr>events := events ?s @ [PublishNormals markers]\<rparr>)"
    and ids: "mset (map m_id markers) =
             mset (map int (filter (\<lambda>k. k mod nat (reduce_normals_' ?s) = 0) [0..<2 * 2]))"
    by blast
  from ids have i2: "mset (map m_id markers) = {#0, 2#}"
    unfolding N f by simp
  then have "size (mset (map m_id markers)) = 2" by simp
  then have l2: "length markers = 2" by simp
  show ?thesis using h r i2 l2 by blast
qed

text \<open>
  Claim C8 as stated puts no condition on the stride. The stride is read from the configuration
  unchecked and converted to \<^verbatim>\<open>unsigned int\<close> in the remainder: with the stride
  \<open>-2\<close> on a grid of two rows and two columns the callback publishes one marker, of
  index \<open>0\<close>, where two of the four flat indices are divisible by \<open>-2\<close>; with the
  stride \<open>0\<close> the remainder is undefined and nothing is published.
\<close>

theorem normals_markers_negative_stride:
  "(\<exists>m. OnNewNormalsFrame (replicate 16 (Fin 0)) 2 2
            (example_normals_plugin\<lparr>reduce_normals_' := - 2\<rparr>) =
          Inr (example_normals_plugin
                 \<lparr>reduce_normals_' := - 2,
                  events := events example_normals_plugin @ [PublishNormals [m]]\<rparr>) \<and>
        m_id m = 0) \<and>
   length (filter (\<lambda>k. int k mod (- 2) = 0) [0..<2 * 2]) = 2 \<and>
   OnNewNormalsFrame (replicate 16 (Fin 0)) 2 2
     (example_normals_plugin\<lparr>reduce_normals_' := 0\<rparr>) = Inl DivisionByZero"
proof -
  have z: "OnNewNormalsFrame (replicate 16 (Fin 0)) 2 2
     (example_normals_plugin\<lparr>reduce_normals_' := 0\<rparr>) = Inl DivisionByZero"
    by (simp add: OnNewNormalsFrame_def normals_pixel_def example_normals_plugin_def
        loaded_plugin_def bind_def Let_def upt2)
  have c: "length (filter (\<lambda>k. int k mod (- 2) = 0) [0..<2 * 2]) = 2"
    by (simp add: upt4)
  have n: "\<exists>m. OnNewNormalsFrame (replicate 16 (Fin 0)) 2 2
            (example_normals_plugin\<lparr>reduce_normals_' := - 2\<rparr>) =
          Inr (example_normals_plugin
                 \<lparr>reduce_normals_' := - 2,
                  events := events example_normals_plugin @ [PublishNormals [m]]\<rparr>) \<and>
        m_id m = 0"
    by (simp add: OnNewNormalsFrame_def normals_pixel_def example_normals_plugin_def
        loaded_plugin_def bind_def Let_def upt2 read_at_def u32_def s32_def replicate16)
  show ?thesis using z c n by blast
qed

section \<open>The orientation of the published markers\<close>

lemma example_normals_nth:
  "example_normals ! 0 = Fin 0" "example_normals ! 1 = Fin 1" "example_normals ! 2 = Fin 0"
  "example_normals ! 8 = Fin 0" "example_normals ! 9 = Fin 0" "example_normals ! 10 = Fin 0"
  "length example_normals = 16"
  "example_normals ! Suc 0 = Fin 1" "example_normals ! Suc (Suc 0) = Fin 0"
  by (simp_all add: example_normals_def replicate12)

lemma example_normals_plugin_ready:
  "initialized_' example_normals_plugin" "height_' example_normals_plugin > 0"
  "width_' example_normals_plugin > 0" "sensor_active example_normals_plugin"
  "normals_connect_count_' example_normals_plugin > 0"
  "pcd_' example_normals_plugin = Some (replicate 16 (Fin 1))"
  "0 < reduce_normals_' example_normals_plugin"
  "reduce_normals_' example_normals_plugin < 2 ^ 31"
  by (simp_all add: example_normals_plugin_def loaded_plugin_def)

lemma example_markers:
  "concat (map (\<lambda>i. concat (map (\<lambda>j. sampled 2 f (j * 2 + i)) [0..<2])) [0..<2]) = [f 0, f 2]"
  by (simp add: upt2 sampled_def)

text \<open>
  Claim C7, amended. For a normal frame delivered under the conditions of the theorem
  on the markers above, every marker the callback publishes has this orientation, the
  normal being the first three floats of the normal frame at the marker's index: the
  identity quaternion when the normal is the zero vector; for a finite normal
  \<open>(a, b, c)\<close> with \<open>(b, c) \<noteq> (0, 0)\<close> and \<open>-1 \<le> a \<le> 1\<close>, the unit
  quaternion built from the axis \<open>normal \<times> reference\<close>, with the reference axis
  \<open>(1, 0, 0)\<close>, and the angle \<open>- acos (normal \<cdot> reference)\<close>; it has length one,
  so the normalisation after construction leaves it as it is.
\<close>

theorem published_marker_orientation:
  assumes "initialized_' this" and "height_' this > 0" and "width_' this > 0"
    and "sensor_active this" and "normals_connect_count_' this > 0"
    and "pcd_' this = Some pcd"
    and "0 < reduce_normals_' this" and "reduce_normals_' this < 2 ^ 31"
    and "w * h * 4 < 2 ^ 32" and "w * h * 4 \<le> length normals" and "w * h * 4 \<le> length pcd"
  shows "\<exists>markers.
           OnNewNormalsFrame normals w h this =
             Inr (this\<lparr>events := events this @ [PublishNormals markers]\<rparr>) \<and>
           mset (map m_id markers) =
             mset (map int (filter (\<lambda>k. k mod nat (reduce_normals_' this) = 0) [0..<w * h])) \<and>
           (\<forall>m \<in> set markers.
              (normals ! (4 * nat (m_id m)) = Fin 0 \<and>
               normals ! (4 * nat (m_id m) + 1) = Fin 0 \<and>
               normals ! (4 * nat (m_id m) + 2) = Fin 0 \<longrightarrow>
                 m_orientation m = quat_msg (Some (0, 0, 0, 1))) \<and>
              (\<forall>a b c.
                 normals ! (4 * nat (m_id m)) = Fin a \<and>
                 normals ! (4 * nat (m_id m) + 1) = Fin b \<and>
                 normals ! (4 * nat (m_id m) + 2) = Fin c \<and>
                 \<not> (b = 0 \<and> c = 0) \<and> - 1 \<le> a \<and> a \<le> 1 \<longrightarrow>
                   m_orientation m =
                     quat_msg (Some (axis_angle_quat (cross (a, b, c) (1, 0, 0))
                                       (- arccos (dot (a, b, c) (1, 0, 0))))) \<and>
                   quat_length (axis_angle_quat (cross (a, b, c) (1, 0, 0))
                                  (- arccos (dot (a, b, c) (1, 0, 0)))) = 1))"
proof -
  define N where "N = nat (reduce_normals_' this)"
  define f where "f = marker_at this normals pcd"
  define markers where
    "markers = concat (map (\<lambda>i. concat (map (\<lambda>j. sampled N f (j * w + i)) [0..<h])) [0..<w])"
  have r: "OnNewNormalsFrame normals w h this =
             Inr (this\<lparr>events := events this @ [PublishNormals markers]\<rparr>)"
    unfolding markers_def N_def f_def by (rule OnNewNormalsFrame_publishes[OF assms])
  have ids: "mset (map m_id markers) = mset (map int (filter (\<lambda>k. k mod N = 0) [0..<w * h]))"
  proof -
    have "mset markers = mset (concat (map (sampled N f) [0..<w * h]))"
      unfolding markers_def by (simp add: mset_column_major mult.commute)
    then have "image_mset m_id (mset markers) =
                 mset (map m_id (concat (map (sampled N f) [0..<w * h])))"
      by simp
    then show ?thesis unfolding f_def by (simp only: sampled_ids mset_map)
  qed
  have ori: "m_id m = int k \<and>
             m_orientation m =
               marker_orientation (normals ! (4 * k)) (normals ! (4 * k + 1)) (normals ! (4 * k + 2))"
    if "m = f k" for m k
    using that by (simp add: f_def marker_at_def)
  show ?thesis
  proof (intro exI[of _ markers] conjI ballI allI impI)
    show "OnNewNormalsFrame normals w h this =
            Inr (this\<lparr>events := events this @ [PublishNormals markers]\<rparr>)"
      by (rule r)
    show "mset (map m_id markers) =
            mset (map int (filter (\<lambda>k. k mod nat (reduce_normals_' this) = 0) [0..<w * h]))"
      using ids unfolding N_def .
  next
    fix m
    assume m: "m \<in> set markers"
      and z: "normals ! (4 * nat (m_id m)) = Fin 0 \<and>
              normals ! (4 * nat (m_id m) + 1) = Fin 0 \<and>
              normals ! (4 * nat (m_id m) + 2) = Fin 0"
    from column_major_members[OF m[unfolded markers_def]] obtain k where "m = f k"
      by auto
    from ori[OF this] z show "m_orientation m = quat_msg (Some (0, 0, 0, 1))"
      by (simp add: marker_orientation_zero)
  next
    fix m a b c
    assume m: "m \<in> set markers"
      and n: "normals ! (4 * nat (m_id m)) = Fin a \<and>
              normals ! (4 * nat (m_id m) + 1) = Fin b \<and>
              normals ! (4 * nat (m_id m) + 2) = Fin c \<and>
              \<not> (b = 0 \<and> c = 0) \<and> - 1 \<le> a \<and> a \<le> 1"
    from column_major_members[OF m[unfolded markers_def]] obtain k where "m = f k"
      by auto
    from ori[OF this] n
    have o: "m_orientation m = marker_orientation (Fin a) (Fin b) (Fin c)" by simp
    from n have h: "\<not> (b = 0 \<and> c = 0)" "- 1 \<le> a" "a \<le> 1" by simp_all
    have nz: "length3 (0, c, - b) \<noteq> 0" using h(1) by (auto simp add: length3_zero_iff)
    show "m_orientation m =
            quat_msg (Some (axis_angle_quat (cross (a, b, c) (1, 0, 0))
                              (- arccos (dot (a, b, c) (1, 0, 0)))))"
      unfolding o by (simp add: marker_orientation_finite[OF h] cross_reference dot_reference)
    show "quat_length (axis_angle_quat (cross (a, b, c) (1, 0, 0))
                         (- arccos (dot (a, b, c) (1, 0, 0)))) = 1"
      using axis_angle_quat_unit[OF nz] by (simp add: cross_reference dot_reference)
  qed
qed

text \<open>
  The theorem at the example frame with stride \<open>2\<close>: the marker of index \<open>0\<close>,
  whose normal is \<open>(0, 1, 0)\<close>, has the quarter turn about \<open>z\<close> that takes the
  reference axis to the normal; the marker of index \<open>2\<close>, whose normal is zero, has
  the identity.
\<close>

theorem published_marker_orientation_witness:
  "initialized_' example_normals_plugin \<and>
   height_' example_normals_plugin > 0 \<and>
   width_' example_normals_plugin > 0 \<and>
   sensor_active example_normals_plugin \<and>
   normals_connect_count_' example_normals_plugin > 0 \<and>
   pcd_' example_normals_plugin = Some (replicate 16 (Fin 1)) \<and>
   0 < reduce_normals_' example_normals_plugin \<and>
   reduce_normals_' example_normals_plugin < 2 ^ 31 \<and>
   (2::nat) * 2 * 4 < 2 ^ 32 \<and>
   2 * 2 * 4 \<le> length example_normals \<and>
   2 * 2 * 4 \<le> length (replicate 16 (Fin 1)) \<and>
   (\<exists>markers.
      OnNewNormalsFrame example_normals 2 2 example_normals_plugin =
        Inr (example_normals_plugin
               \<lparr>events := events example_normals_plugin @ [PublishNormals markers]\<rparr>) \<and>
      mset (map m_id markers) = {#0, 2#} \<and>
      (\<forall>m \<in> set markers.
         (m_id m = 0 \<longrightarrow>
            m_orientation m =
              \<lparr>q_x = Fin 0, q_y = Fin 0, q_z = Fin (sqrt 2 / 2), q_w = Fin (sqrt 2 / 2)\<rparr>) \<and>
         (m_id m = 2 \<longrightarrow>
            m_orientation m = \<lparr>q_x = Fin 0, q_y = Fin 0, q_z = Fin 0, q_w = Fin 1\<rparr>)))"
proof -
  let ?s = example_normals_plugin
  note h = example_normals_plugin_ready
  have g: "(2::nat) * 2 * 4 < 2 ^ 32" "2 * 2 * 4 \<le> length example_normals"
    "2 * 2 * 4 \<le> length (replicate 16 (Fin 1))"
    by (simp_all add: example_normals_nth)
  have N: "nat (reduce_normals_' ?s) = 2"
    by (simp add: example_normals_plugin_def)
  have f: "filter (\<lambda>k. k mod 2 = 0) [0..<2 * 2] = [0, 2::nat]"
    by (simp add: upt_rec)
  from published_marker_orientation[OF h g]
  obtain markers where r: "OnNewNormalsFrame example_normals 2 2 ?s =
        Inr (?s\<lparr>events := events ?s @ [PublishNormals markers]\<rparr>)"
    and ids: "mset (map m_id markers) =
             mset (map int (filter (\<lambda>k. k mod nat (reduce_normals_' ?s) = 0) [0..<2 * 2]))"
    and ori: "\<forall>m \<in> set markers.
              (example_normals ! (4 * nat (m_id m)) = Fin 0 \<and>
               example_normals ! (4 * nat (m_id m) + 1) = Fin 0 \<and>
               example_normals ! (4 * nat (m_id m) + 2) = Fin 0 \<longrightarrow>
                 m_orientation m = quat_msg (Some (0, 0, 0, 1))) \<and>
              (\<forall>a b c.
                 example_normals ! (4 * nat (m_id m)) = Fin a \<and>
                 example_normals ! (4 * nat (m_id m) + 1) = Fin b \<and>
                 example_normals ! (4 * nat (m_id m) + 2) = Fin c \<and>
                 \<not> (b = 0 \<and> c = 0) \<and> - 1 \<le> a \<and> a \<le> 1 \<longrightarrow>
                   m_orientation m =
                     quat_msg (Some (axis_angle_quat (cross (a, b, c) (1, 0, 0))
                                       (- arccos (dot (a, b, c) (1, 0, 0))))) \<and>
                   quat_length (axis_angle_quat (cross (a, b, c) (1, 0, 0))
                                  (- arccos (dot (a, b, c) (1, 0, 0)))) = 1)"
    by auto
  from ids have i2: "mset (map m_id markers) = {#0, 2#}"
    unfolding N f by simp
  have o0: "m_orientation m =
              \<lparr>q_x = Fin 0, q_y = Fin 0, q_z = Fin (sqrt 2 / 2), q_w = Fin (sqrt 2 / 2)\<rparr>"
    if "m \<in> set markers" and "m_id m = 0" for m
  proof -
    from ori that(1)
    have "\<forall>a b c.
                 example_normals ! (4 * nat (m_id m)) = Fin a \<and>
                 example_normals ! (4 * nat (m_id m) + 1) = Fin b \<and>
                 example_normals ! (4 * nat (m_id m) + 2) = Fin c \<and>
                 \<not> (b = 0 \<and> c = 0) \<and> - 1 \<le> a \<and> a \<le> 1 \<longrightarrow>
                   m_orientation m =
                     quat_msg (Some (axis_angle_quat (cross (a, b, c) (1, 0, 0))
                                       (- arccos (dot (a, b, c) (1, 0, 0)))))"
      by simp
    from this[rule_format, of 0 1 0]
    have "m_orientation m =
            quat_msg (Some (axis_angle_quat (cross (0, 1, 0) (1, 0, 0))
                              (- arccos (dot (0, 1, 0) (1, 0, 0)))))"
      by (simp add: that(2) example_normals_nth)
    then show ?thesis by (simp only: quarter_turn)
  qed
  have o2: "m_orientation m = \<lparr>q_x = Fin 0, q_y = Fin 0, q_z = Fin 0, q_w = Fin 1\<rparr>"
    if "m \<in> set markers" and "m_id m = 2" for m
  proof -
    from ori that(1)
    have "example_normals ! (4 * nat (m_id m)) = Fin 0 \<and>
               example_normals ! (4 * nat (m_id m) + 1) = Fin 0 \<and>
               example_normals ! (4 * nat (m_id m) + 2) = Fin 0 \<longrightarrow>
                 m_orientation m = quat_msg (Some (0, 0, 0, 1))"
      by simp
    then show ?thesis
      by (simp add: that(2) example_normals_nth quat_msg_def)
  qed
  show ?thesis
  proof (intro conjI h g exI[of _ markers] ballI impI)
    show "OnNewNormalsFrame example_normals 2 2 ?s =
        Inr (?s\<lparr>events := events ?s @ [PublishNormals markers]\<rparr>)" by (rule r)
    show "mset (map m_id markers) = {#0, 2#}" by (rule i2)
  next
    fix m assume "m \<in> set markers" and "m_id m = 0"
    then show "m_orientation m =
              \<lparr>q_x = Fin 0, q_y = Fin 0, q_z = Fin (sqrt 2 / 2), q_w = Fin (sqrt 2 / 2)\<rparr>"
      by (rule o0)
  next
    fix m assume "m \<in> set markers" and "m_id m = 2"
    then show "m_orientation m = \<lparr>q_x = Fin 0, q_y = Fin 0, q_z = Fin 0, q_w = Fin 1\<rparr>"
      by (rule o2)
  qed
qed

text \<open>
  Claim C7 as stated takes the axis \<open>reference \<times> normal\<close>. For the normal
  \<open>(0, 1, 0)\<close> the code's quaternion is the quarter turn about \<open>z\<close> that takes the
  reference axis to the normal; the quaternion of the stated axis is its inverse. The
  first marker published for the example frame carries the code's quaternion.
\<close>

theorem marker_orientation_cross_order:
  "marker_orientation (Fin 0) (Fin 1) (Fin 0) =
     \<lparr>q_x = Fin 0, q_y = Fin 0, q_z = Fin (sqrt 2 / 2), q_w = Fin (sqrt 2 / 2)\<rparr> \<and>
   quat_msg (Some (spec_orientation (0, 1, 0))) =
     \<lparr>q_x = Fin 0, q_y = Fin 0, q_z = Fin (- (sqrt 2 / 2)), q_w = Fin (sqrt 2 / 2)\<rparr> \<and>
   marker_orientation (Fin 0) (Fin 1) (Fin 0) \<noteq> quat_msg (Some (spec_orientation (0, 1, 0))) \<and>
   (\<exists>m0 m2.
      OnNewNormalsFrame example_normals 2 2 example_normals_plugin =
        Inr (example_normals_plugin
               \<lparr>events := events example_normals_plugin @ [PublishNormals [m0, m2]]\<rparr>) \<and>
      m_id m0 = 0 \<and>
      example_normals ! 0 = Fin 0 \<and> example_normals ! 1 = Fin 1 \<and> example_normals ! 2 = Fin 0 \<and>
      m_orientation m0 =
        \<lparr>q_x = Fin 0, q_y = Fin 0, q_z = Fin (sqrt 2 / 2), q_w = Fin (sqrt 2 / 2)\<rparr> \<and>
      m_orientation m0 \<noteq> quat_msg (Some (spec_orientation (0, 1, 0))))"
proof -
  have h: "- (pi / 2) / 2 = - (pi / 4)" by simp
  have a: "marker_orientation (Fin 0) (Fin 1) (Fin 0) =
     \<lparr>q_x = Fin 0, q_y = Fin 0, q_z = Fin (sqrt 2 / 2), q_w = Fin (sqrt 2 / 2)\<rparr>"
    using marker_orientation_finite[of 1 0 0]
    by (simp add: axis_angle_quat_def length3_def dot_def quat_msg_def h quarter)
  have b: "quat_msg (Some (spec_orientation (0, 1, 0))) =
     \<lparr>q_x = Fin 0, q_y = Fin 0, q_z = Fin (- (sqrt 2 / 2)), q_w = Fin (sqrt 2 / 2)\<rparr>"
    by (simp add: spec_orientation_def isZero_def cross_def axis_angle_quat_def length3_def
        dot_def quat_msg_def h quarter)
  have ne: "sqrt 2 / 2 \<noteq> - (sqrt 2 / 2)" by simp
  let ?s = example_normals_plugin
  let ?f = "marker_at ?s example_normals (replicate 16 (Fin 1))"
  have g: "(2::nat) * 2 * 4 < 2 ^ 32" "2 * 2 * 4 \<le> length example_normals"
    "2 * 2 * 4 \<le> length (replicate 16 (Fin 1))"
    by (simp_all add: example_normals_nth)
  have N: "nat (reduce_normals_' ?s) = 2"
    by (simp add: example_normals_plugin_def)
  have r: "OnNewNormalsFrame example_normals 2 2 ?s =
             Inr (?s\<lparr>events := events ?s @ [PublishNormals [?f 0, ?f 2]]\<rparr>)"
    using OnNewNormalsFrame_publishes[OF example_normals_plugin_ready g]
    unfolding N example_markers .
  have i0: "m_id (?f 0) = 0" by (simp add: marker_at_def)
  have o0: "m_orientation (?f 0) =
        \<lparr>q_x = Fin 0, q_y = Fin 0, q_z = Fin (sqrt 2 / 2), q_w = Fin (sqrt 2 / 2)\<rparr>"
    by (simp add: marker_at_def example_normals_nth a)
  have "\<exists>m0 m2.
      OnNewNormalsFrame example_normals 2 2 ?s =
        Inr (?s\<lparr>events := events ?s @ [PublishNormals [m0, m2]]\<rparr>) \<and>
      m_id m0 = 0 \<and>
      example_normals ! 0 = Fin 0 \<and> example_normals ! 1 = Fin 1 \<and> example_normals ! 2 = Fin 0 \<and>
      m_orientation m0 =
        \<lparr>q_x = Fin 0, q_y = Fin 0, q_z = Fin (sqrt 2 / 2), q_w = Fin (sqrt 2 / 2)\<rparr> \<and>
      m_orientation m0 \<noteq> quat_msg (Some (spec_orientation (0, 1, 0)))"
    using ne
    by (intro exI[of _ "?f 0"] exI[of _ "?f 2"] conjI r i0 o0 example_normals_nth(1-3))
       (simp add: o0 b)
  moreover have "marker_orientation (Fin 0) (Fin 1) (Fin 0) \<noteq> quat_msg (Some (spec_orientation (0, 1, 0)))"
    using ne unfolding a b by simp
  ultimately show ?thesis using a b by blast
qed

end
